theory Spec2Isabelle
  imports Complex_Main
begin

section \<open>JavaScript numbers\<close>

text \<open>
  A JavaScript Number is modelled as an exact real extended with the three special values
  of IEEE 754 arithmetic. Finite arithmetic is exact (no rounding, no overflow) and the two
  zeros are identified; the special values follow IEEE 754: a nonzero value divided by zero
  is the infinity of the sign of that value (the quotient by the zero +0), zero divided by
  zero is NaN, and every comparison with NaN is false.
\<close>

datatype jsnum = Fin real | PInf | NInf | NaN

definition isNaN :: "jsnum \<Rightarrow> bool" where
  "isNaN x = (case x of NaN \<Rightarrow> True | _ \<Rightarrow> False)"

definition nneg :: "jsnum \<Rightarrow> jsnum" where
  "nneg x = (case x of Fin a \<Rightarrow> Fin (- a) | PInf \<Rightarrow> NInf | NInf \<Rightarrow> PInf | NaN \<Rightarrow> NaN)"

definition nadd :: "jsnum \<Rightarrow> jsnum \<Rightarrow> jsnum" where
  "nadd x y = (case x of
       NaN \<Rightarrow> NaN
     | Fin a \<Rightarrow> (case y of Fin b \<Rightarrow> Fin (a + b) | _ \<Rightarrow> y)
     | PInf \<Rightarrow> (case y of NaN \<Rightarrow> NaN | NInf \<Rightarrow> NaN | _ \<Rightarrow> PInf)
     | NInf \<Rightarrow> (case y of NaN \<Rightarrow> NaN | PInf \<Rightarrow> NaN | _ \<Rightarrow> NInf))"

definition nsub :: "jsnum \<Rightarrow> jsnum \<Rightarrow> jsnum" where
  "nsub x y = nadd x (nneg y)"

text \<open>The sign of a value: \<open>Some True\<close> for a positive value, \<open>Some False\<close> for a negative
  one, \<open>None\<close> for zero and NaN.\<close>

definition nsign :: "jsnum \<Rightarrow> bool option" where
  "nsign x = (case x of
       Fin a \<Rightarrow> (if a > 0 then Some True else if a < 0 then Some False else None)
     | PInf \<Rightarrow> Some True
     | NInf \<Rightarrow> Some False
     | NaN \<Rightarrow> None)"

definition inf_of :: "bool \<Rightarrow> jsnum" where
  "inf_of positive = (if positive then PInf else NInf)"

definition nmul :: "jsnum \<Rightarrow> jsnum \<Rightarrow> jsnum" where
  "nmul x y = (case (x, y) of
       (NaN, _) \<Rightarrow> NaN
     | (_, NaN) \<Rightarrow> NaN
     | (Fin a, Fin b) \<Rightarrow> Fin (a * b)
     | _ \<Rightarrow> (case (nsign x, nsign y) of
                (Some s, Some t) \<Rightarrow> inf_of (s = t)
              | _ \<Rightarrow> NaN))"

definition ndiv :: "jsnum \<Rightarrow> jsnum \<Rightarrow> jsnum" where
  "ndiv x y = (case (x, y) of
       (NaN, _) \<Rightarrow> NaN
     | (_, NaN) \<Rightarrow> NaN
     | (Fin a, Fin b) \<Rightarrow>
         (if b = 0 then (if a > 0 then PInf else if a < 0 then NInf else NaN)
          else Fin (a / b))
     | (Fin a, _) \<Rightarrow> Fin 0
     | (_, Fin b) \<Rightarrow> (if b < 0 then nneg x else x)
     | _ \<Rightarrow> NaN)"

definition nlt :: "jsnum \<Rightarrow> jsnum \<Rightarrow> bool" where
  "nlt x y = (case (x, y) of
       (Fin a, Fin b) \<Rightarrow> a < b
     | (Fin a, PInf) \<Rightarrow> True
     | (NInf, Fin b) \<Rightarrow> True
     | (NInf, PInf) \<Rightarrow> True
     | _ \<Rightarrow> False)"

definition ngt :: "jsnum \<Rightarrow> jsnum \<Rightarrow> bool" where
  "ngt x y = nlt y x"

text \<open>\<open>Math.abs\<close>, \<open>Math.trunc\<close>, \<open>Math.cos\<close>, \<open>Math.sin\<close>, \<open>Math.PI\<close> and
  \<open>Math.pow(x, 2)\<close>.\<close>

definition Math_abs :: "jsnum \<Rightarrow> jsnum" where
  "Math_abs x = (case x of Fin a \<Rightarrow> Fin \<bar>a\<bar> | PInf \<Rightarrow> PInf | NInf \<Rightarrow> PInf | NaN \<Rightarrow> NaN)"

definition Math_trunc :: "jsnum \<Rightarrow> jsnum" where
  "Math_trunc x = (case x of
       Fin a \<Rightarrow> Fin (if a < 0 then - of_int \<lfloor>- a\<rfloor> else of_int \<lfloor>a\<rfloor>)
     | _ \<Rightarrow> x)"

definition Math_cos :: "jsnum \<Rightarrow> jsnum" where
  "Math_cos x = (case x of Fin a \<Rightarrow> Fin (cos a) | _ \<Rightarrow> NaN)"

definition Math_sin :: "jsnum \<Rightarrow> jsnum" where
  "Math_sin x = (case x of Fin a \<Rightarrow> Fin (sin a) | _ \<Rightarrow> NaN)"

definition Math_PI :: jsnum where
  "Math_PI = Fin pi"

definition Math_sq :: "jsnum \<Rightarrow> jsnum" where
  "Math_sq x = (case x of Fin a \<Rightarrow> Fin (a * a) | PInf \<Rightarrow> PInf | NInf \<Rightarrow> PInf | NaN \<Rightarrow> NaN)"

text \<open>A variable that may hold \<open>undefined\<close>, \<open>null\<close> or a Number, and its conversion
  to a Number where arithmetic reads it.\<close>

datatype jsval = Undefined | Null | Num jsnum

definition to_num :: "jsval \<Rightarrow> jsnum" where
  "to_num v = (case v of Undefined \<Rightarrow> NaN | Null \<Rightarrow> Fin 0 | Num x \<Rightarrow> x)"

section \<open>JavaScript strings\<close>

text \<open>A string is its sequence of UTF-16 code units. \<open>str\<close> embeds an ASCII literal.\<close>

type_synonym jsstring = "nat list"

definition str :: "string \<Rightarrow> jsstring" where
  "str cs = map of_char cs"

definition degree_sign :: nat where "degree_sign = 176"
definition apostrophe :: nat where "apostrophe = 39"
definition left_quote :: nat where "left_quote = 8216"
definition right_quote :: nat where "right_quote = 8217"
definition space :: nat where "space = 32"

definition is_digit :: "nat \<Rightarrow> bool" where
  "is_digit c = (48 \<le> c \<and> c \<le> 57)"

text \<open>\<open>String.prototype.trim\<close> removes the WhiteSpace and LineTerminator code points.\<close>

definition is_ws :: "nat \<Rightarrow> bool" where
  "is_ws c = (c \<in> set [9, 10, 11, 12, 13, 32, 160, 5760, 8232, 8233, 8239, 8287, 12288, 65279]
              \<or> (8192 \<le> c \<and> c \<le> 8202))"

definition trim :: "jsstring \<Rightarrow> jsstring" where
  "trim s = rev (dropWhile is_ws (rev (dropWhile is_ws s)))"

text \<open>
  \<open>String.prototype.toUpperCase\<close>, on the characters that matter here: the Basic Latin
  letters, and the long s (U+017F), the only other character whose upper case is one of the
  characters the patterns below accept. Every other character is left as it is; none of
  them, and none of their upper-case forms, is accepted by any pattern.
\<close>

definition upper_unit :: "nat \<Rightarrow> nat" where
  "upper_unit c = (if 97 \<le> c \<and> c \<le> 122 then c - 32 else if c = 383 then 83 else c)"

definition toUpperCase :: "jsstring \<Rightarrow> jsstring" where
  "toUpperCase s = map upper_unit s"

subsection \<open>Number to text and back\<close>

function decimal :: "nat \<Rightarrow> jsstring" where
  "decimal n = (if n < 10 then [48 + n] else decimal (n div 10) @ [48 + n mod 10])"
  by pat_completeness auto
termination
  by (relation "measure id") auto

declare decimal.simps [simp del]

definition zero_pad :: "nat \<Rightarrow> jsstring \<Rightarrow> jsstring" where
  "zero_pad w ds = replicate (w - length ds) 48 @ ds"

function group3 :: "jsstring \<Rightarrow> jsstring" where
  "group3 ds = (if length ds \<le> 3 then ds
                else group3 (take (length ds - 3) ds) @ [44] @ drop (length ds - 3) ds)"
  by pat_completeness auto
termination
  by (relation "measure length") auto

declare group3.simps [simp del]

fun strip_zeros :: "nat \<Rightarrow> jsstring \<Rightarrow> jsstring" where
  "strip_zeros minFrac ds =
     (if minFrac < length ds \<and> ds \<noteq> [] \<and> last ds = 48
      then strip_zeros minFrac (butlast ds) else ds)"

declare strip_zeros.simps [simp del]

text \<open>
  \<open>Number.prototype.toLocaleString(undefined, options)\<close> has no definition in the
  repository: it is the host's number formatter, and its output depends on the host's
  locale. It is modelled for the \<open>en-US\<close> locale with the three options the program
  passes (\<open>minimumIntegerDigits\<close>, \<open>minimumFractionDigits\<close>, \<open>maximumFractionDigits\<close>):
  rounding half away from zero to \<open>maxFrac\<close> fraction digits, ASCII digits, integer
  digits grouped in threes by commas, and a full stop before the fraction.
\<close>

definition toLocaleString :: "jsnum \<Rightarrow> nat \<Rightarrow> nat \<Rightarrow> nat \<Rightarrow> jsstring" where
  "toLocaleString x minInt minFrac maxFrac = (case x of
       NaN \<Rightarrow> str ''NaN''
     | PInf \<Rightarrow> [8734]
     | NInf \<Rightarrow> [45, 8734]
     | Fin r \<Rightarrow>
        (let scaled = nat \<lfloor>\<bar>r\<bar> * 10 ^ maxFrac + 1 / 2\<rfloor>;
             ip = scaled div 10 ^ maxFrac;
             fp = scaled mod 10 ^ maxFrac;
             frac = strip_zeros minFrac (if maxFrac = 0 then [] else zero_pad maxFrac (decimal fp))
         in (if r < 0 then [45] else [])
            @ group3 (zero_pad minInt (decimal ip))
            @ (if frac = [] then [] else 46 # frac)))"

text \<open>
  \<open>Number(text)\<close> on the texts the patterns capture: a run of digits, optionally followed
  by a full stop and digits; the empty text is 0. Any other text is mapped to NaN here
  (JavaScript accepts more forms, none of which a capture can have).
\<close>

definition digits_val :: "jsstring \<Rightarrow> nat" where
  "digits_val ds = foldl (\<lambda>a c. 10 * a + (c - 48)) 0 ds"

definition Number :: "jsstring \<Rightarrow> jsnum" where
  "Number s =
     (let ip = takeWhile is_digit s; rest = dropWhile is_digit s in
      case rest of
        [] \<Rightarrow> Fin (real (digits_val ip))
      | c # fp \<Rightarrow>
          if c = 46 \<and> list_all is_digit fp \<and> \<not> (ip = [] \<and> fp = [])
          then Fin (real (digits_val ip) + real (digits_val fp) / 10 ^ length fp)
          else NaN)"

text \<open>\<open>Number(m[k])\<close> of a capture group: a group that did not take part is
  \<open>undefined\<close>, whose Number is NaN.\<close>

definition Number_of_group :: "jsstring option \<Rightarrow> jsnum" where
  "Number_of_group g = (case g of None \<Rightarrow> NaN | Some s \<Rightarrow> Number s)"

subsection \<open>Regular expressions\<close>

text \<open>
  A pattern is a backtracking matcher: from the capture groups so far and the text still
  to read, it returns every way to match a prefix, in the order in which JavaScript's
  regular expressions try them (greedy quantifiers longest first, alternatives left to
  right). The result of \<open>s.match(pattern)\<close> for a pattern anchored by \<open>^\<close> and
  \<open>$\<close> is the first way that reads the whole text.
\<close>

type_synonym captures = "nat \<rightharpoonup> jsstring"
type_synonym mstate = "captures \<times> jsstring"
type_synonym matcher = "mstate \<Rightarrow> mstate list"

definition cls :: "(nat \<Rightarrow> bool) \<Rightarrow> matcher" where
  "cls p st = (case snd st of [] \<Rightarrow> [] | x # xs \<Rightarrow> if p x then [(fst st, xs)] else [])"

definition eps :: matcher where
  "eps st = [st]"

definition seq :: "matcher \<Rightarrow> matcher \<Rightarrow> matcher" where
  "seq m1 m2 st = concat (map m2 (m1 st))"

definition alt :: "matcher \<Rightarrow> matcher \<Rightarrow> matcher" where
  "alt m1 m2 st = m1 st @ m2 st"

definition opt :: "matcher \<Rightarrow> matcher" where
  "opt m st = m st @ [st]"

fun star_suffixes :: "(nat \<Rightarrow> bool) \<Rightarrow> jsstring \<Rightarrow> jsstring list" where
  "star_suffixes p [] = [[]]"
| "star_suffixes p (x # xs) = (if p x then star_suffixes p xs @ [x # xs] else [x # xs])"

definition star :: "(nat \<Rightarrow> bool) \<Rightarrow> matcher" where
  "star p st = map (Pair (fst st)) (star_suffixes p (snd st))"

text \<open>\<open>rep_suffixes p lo hi\<close> is the quantifier \<open>{lo,hi}\<close> on a character class.\<close>

fun rep_suffixes :: "(nat \<Rightarrow> bool) \<Rightarrow> nat \<Rightarrow> nat \<Rightarrow> jsstring \<Rightarrow> jsstring list" where
  "rep_suffixes p lo hi [] = (if lo = 0 then [[]] else [])"
| "rep_suffixes p lo hi (x # xs) =
     (if hi \<noteq> 0 \<and> p x then rep_suffixes p (lo - 1) (hi - 1) xs else [])
     @ (if lo = 0 then [x # xs] else [])"

definition rep :: "(nat \<Rightarrow> bool) \<Rightarrow> nat \<Rightarrow> nat \<Rightarrow> matcher" where
  "rep p lo hi st = map (Pair (fst st)) (rep_suffixes p lo hi (snd st))"

definition plus :: "(nat \<Rightarrow> bool) \<Rightarrow> matcher" where
  "plus p = seq (cls p) (star p)"

definition grp :: "nat \<Rightarrow> matcher \<Rightarrow> matcher" where
  "grp n m st =
     map (\<lambda>(c, r). (c(n \<mapsto> take (length (snd st) - length r) (snd st)), r)) (m st)"

definition js_match :: "matcher \<Rightarrow> jsstring \<Rightarrow> captures option" where
  "js_match m s = (case filter (\<lambda>(c, r). r = []) (m (Map.empty, s)) of
       [] \<Rightarrow> None
     | (c, r) # _ \<Rightarrow> Some c)"

section \<open>Angle codec\<close>

definition radians :: "jsnum \<Rightarrow> jsnum" where
  "radians deg = nmul (ndiv deg (Fin 180)) Math_PI"

text \<open>The pattern for the minutes; \<open>g\<close> and \<open>g + 1\<close> are the numbers its two capture
  groups get at the place where it is inserted.\<close>

definition minutesRegex :: "bool \<Rightarrow> nat \<Rightarrow> matcher" where
  "minutesRegex withMinutes g =
     (if withMinutes then
        seq (star (\<lambda>c. c = space))
       (seq (grp g
               (seq (rep is_digit 1 2)
                    (opt (grp (g + 1) (seq (cls (\<lambda>c. c = 46)) (cls is_digit))))))
       (seq (star (\<lambda>c. c = space))
            (opt (cls (\<lambda>c. c \<in> {apostrophe, left_quote, right_quote})))))
      else grp g (grp (g + 1) eps))"

definition degreesRegex :: "nat \<Rightarrow> jsstring \<Rightarrow> jsstring \<Rightarrow> bool \<Rightarrow> matcher" where
  "degreesRegex maxDigits posDirection negDirection withMinutes =
     grp 1
       (alt
          (seq (grp 2 (rep is_digit 1 maxDigits))
          (seq (star (\<lambda>c. c = space))
          (seq (opt (cls (\<lambda>c. c \<in> {degree_sign, 42})))
          (seq (minutesRegex withMinutes 3)
          (seq (star (\<lambda>c. c = space))
               (grp 5 (cls (\<lambda>c. c \<in> set (posDirection @ negDirection)))))))))
          (seq (grp 6 (opt (cls (\<lambda>c. c \<in> {45, 43}))))
          (seq (star (\<lambda>c. c = space))
          (seq (grp 7 (rep is_digit 1 maxDigits))
          (seq (star (\<lambda>c. c = space))
          (seq (opt (cls (\<lambda>c. c \<in> {degree_sign, 42})))
               (minutesRegex withMinutes 8)))))))"

text \<open>The result is \<open>None\<close> where the source returns \<open>null\<close>.\<close>

definition parseDegreesDirection ::
  "jsstring \<Rightarrow> nat \<Rightarrow> jsnum \<Rightarrow> jsstring \<Rightarrow> jsstring \<Rightarrow> bool \<Rightarrow> jsnum option" where
  "parseDegreesDirection s0 maxDigits maxMagnitude posDirection negDirection withMinutes =
     (let s = toUpperCase (trim s0) in
      if s = [] then Some (Fin 0)
      else case js_match (degreesRegex maxDigits posDirection negDirection withMinutes) s of
        None \<Rightarrow> None
      | Some m \<Rightarrow>
         (case (if m 2 \<noteq> None then
                  Some (Number_of_group (m 2),
                        if withMinutes then Number_of_group (m 3) else Fin 0,
                        m 5 = Some posDirection)
                else if m 6 \<noteq> None then
                  Some (Number_of_group (m 7),
                        if withMinutes then Number_of_group (m 8) else Fin 0,
                        m 6 \<noteq> Some [45])
                else None) of
            None \<Rightarrow> None
          | Some (magnitude0, minutes, isPositive) \<Rightarrow>
             (let magnitude = nadd magnitude0 (ndiv minutes (Fin 60)) in
              if ngt magnitude maxMagnitude then None
              else Some (if isPositive then magnitude else nneg magnitude))))"

definition parseIntegerLatitude :: "jsstring \<Rightarrow> jsnum option" where
  "parseIntegerLatitude s = parseDegreesDirection s 2 (Fin 89) (str ''N'') (str ''S'') False"

definition parseIntegerLongitude :: "jsstring \<Rightarrow> jsnum option" where
  "parseIntegerLongitude s = parseDegreesDirection s 3 (Fin 180) (str ''E'') (str ''W'') False"

definition parseLongitude :: "jsstring \<Rightarrow> jsnum option" where
  "parseLongitude s = parseDegreesDirection s 3 (Fin 180) (str ''E'') (str ''W'') True"

definition direction_suffix :: "jsnum \<Rightarrow> jsstring \<Rightarrow> jsstring \<Rightarrow> jsstring" where
  "direction_suffix deg posDirection negDirection =
     (if ngt deg (Fin 0) then space # posDirection
      else if nlt deg (Fin 0) then space # negDirection
      else [])"

definition formatDegreesMinutesDirection ::
  "jsnum \<Rightarrow> nat \<Rightarrow> jsstring \<Rightarrow> jsstring \<Rightarrow> jsstring" where
  "formatDegreesMinutesDirection deg minDegreeDigits posDirection negDirection =
     (let absDeg = Math_abs deg;
          truncAbsDeg = Math_trunc absDeg
      in toLocaleString truncAbsDeg minDegreeDigits 0 0
         @ [degree_sign, space]
         @ toLocaleString (nmul (nsub absDeg truncAbsDeg) (Fin 60)) 2 1 1
         @ [right_quote]
         @ direction_suffix deg posDirection negDirection)"

definition formatDegreesDirection ::
  "jsnum \<Rightarrow> nat \<Rightarrow> jsstring \<Rightarrow> jsstring \<Rightarrow> jsstring" where
  "formatDegreesDirection deg minDigits posDirection negDirection =
     toLocaleString (Math_abs deg) minDigits 0 0
     @ [degree_sign]
     @ direction_suffix deg posDirection negDirection"

definition formatLatitude :: "jsnum \<Rightarrow> jsstring" where
  "formatLatitude deg = formatDegreesMinutesDirection deg 2 (str ''N'') (str ''S'')"

definition formatIntegerLatitude :: "jsnum \<Rightarrow> jsstring" where
  "formatIntegerLatitude deg = formatDegreesDirection deg 2 (str ''N'') (str ''S'')"

definition formatLongitude :: "jsnum \<Rightarrow> jsstring" where
  "formatLongitude deg = formatDegreesMinutesDirection deg 3 (str ''E'') (str ''W'')"

definition formatIntegerLongitude :: "jsnum \<Rightarrow> jsstring" where
  "formatIntegerLongitude deg = formatDegreesDirection deg 3 (str ''E'') (str ''W'')"

section \<open>Session state\<close>

text \<open>
  The globals of the program and the parts of the page it reads and writes. A global that
  holds a Number is a \<open>jsnum\<close>; before its first assignment it holds \<open>undefined\<close>,
  which is represented by NaN, the value every arithmetic read of \<open>undefined\<close> gives
  (the program reads these globals in arithmetic only). The two fields of \<open>_sheetSize\<close>
  are kept as two globals; \<open>window.onload\<close> assigns them, in its first redraw, before
  anything reads them. The four entries of the draft are
  tested against \<open>undefined\<close> and \<open>null\<close>, so they are \<open>jsval\<close>s.
  An input element is its text and whether it carries the red border. The drawing calls
  on the canvas context are left out: they write to the canvas only.
\<close>

record lop =
  lop_a :: jsnum
  lop_Zn :: jsnum
  lop_aLat :: jsnum
  lop_aLon :: jsnum

record draft =
  draft_a :: jsval
  draft_Zn :: jsval
  draft_aLat :: jsval
  draft_aLon :: jsval

record intersection =
  ix :: jsnum
  iy :: jsnum
  ilat :: jsnum
  ilon :: jsnum

record input =
  input_value :: jsstring
  input_error :: bool

record state =
  g_ctrLat :: jsnum
  g_ctrLon :: jsnum
  g_latScale :: jsnum
  g_lonScale :: jsnum
  g_sheetWidth :: jsnum
  g_sheetHeight :: jsnum
  g_lops :: "lop list"
  g_intersections :: "intersection list"
  g_draftLOP :: draft
  el_ctrLat :: input
  el_ctrLon :: input
  el_a :: input
  el_aDir :: jsstring
  el_Zn :: input
  el_aLat :: input
  el_aLon :: input
  addLOPBtn_disabled :: bool
  coords_text :: jsstring
  coords_snapped :: bool

text \<open>What an event handler reads from the browser window and the page layout.\<close>

record env =
  innerWidth :: jsnum
  innerHeight :: jsnum
  header_clientHeight :: jsnum
  footer_clientHeight :: jsnum
  sheet_offsetLeft :: jsnum
  sheet_offsetTop :: jsnum

definition clearInputError :: "input \<Rightarrow> input" where
  "clearInputError elem = elem\<lparr>input_error := False\<rparr>"

definition flagInputError :: "input \<Rightarrow> input" where
  "flagInputError elem = elem\<lparr>input_error := True\<rparr>"

section \<open>Projection model\<close>

record geo =
  geo_lat :: jsnum
  geo_lon :: jsnum

record point =
  pt_x :: jsnum
  pt_y :: jsnum

definition rhumbPoint :: "jsnum \<Rightarrow> jsnum \<Rightarrow> jsnum \<Rightarrow> jsnum \<Rightarrow> geo" where
  "rhumbPoint lat lon Zn a =
     (let aInLon = ndiv a (Math_cos (radians lat)) in
      \<lparr> geo_lat = nadd lat (ndiv (nmul (Math_cos Zn) a) (Fin 60)),
        geo_lon = nadd lon (ndiv (nmul (Math_sin Zn) aInLon) (Fin 60)) \<rparr>)"

definition project :: "state \<Rightarrow> jsnum \<Rightarrow> jsnum \<Rightarrow> point" where
  "project st lat lon =
     \<lparr> pt_x = nadd (ndiv (g_sheetWidth st) (Fin 2))
                   (nmul (nsub lon (g_ctrLon st)) (g_lonScale st)),
       pt_y = nadd (ndiv (g_sheetHeight st) (Fin 2))
                   (nmul (nsub (g_ctrLat st) lat) (g_latScale st)) \<rparr>"

section \<open>Sheet renderer and intersection engine\<close>

definition setCanvasDimensions :: "env \<Rightarrow> state \<Rightarrow> state" where
  "setCanvasDimensions e st =
     (let pxWidth = innerWidth e;
          pxHeight = nsub (nsub (innerHeight e) (header_clientHeight e)) (footer_clientHeight e);
          latScale = ndiv (nsub pxHeight (Fin 80)) (Fin 4)
      in st\<lparr> g_sheetWidth := pxWidth,
              g_sheetHeight := pxHeight,
              g_latScale := latScale,
              g_lonScale := nmul latScale (Math_cos (radians (g_ctrLat st))) \<rparr>)"

record coeff =
  coeff_m :: jsnum
  coeff_b :: jsnum

text \<open>The function mapped over the lines of position in \<open>redraw\<close> to get \<open>coeffs\<close>.\<close>

definition lop_coeffs :: "lop \<Rightarrow> coeff" where
  "lop_coeffs l =
     (let a = rhumbPoint (lop_aLat l) (lop_aLon l)
                (nadd (lop_Zn l) (ndiv (nmul (Fin 2) Math_PI) (Fin 6)))
                (nmul (Fin 2) (lop_a l));
          b = rhumbPoint (lop_aLat l) (lop_aLon l)
                (nsub (lop_Zn l) (ndiv (nmul (Fin 2) Math_PI) (Fin 6)))
                (nmul (Fin 2) (lop_a l));
          m = ndiv (nsub (geo_lat b) (geo_lat a)) (nsub (geo_lon b) (geo_lon a))
      in \<lparr> coeff_m = m, coeff_b = nsub (geo_lat a) (nmul m (geo_lon a)) \<rparr>)"

text \<open>The body of the inner loop of \<open>redraw\<close> for the pair of coefficients \<open>ci\<close>,
  \<open>cj\<close>: the intersection pushed, or \<open>None\<close> where the body runs \<open>continue\<close>.\<close>

definition pair_intersection :: "state \<Rightarrow> coeff \<Rightarrow> coeff \<Rightarrow> intersection option" where
  "pair_intersection st ci cj =
     (let lonIntercept = ndiv (nsub (coeff_b cj) (coeff_b ci)) (nsub (coeff_m ci) (coeff_m cj)) in
      if isNaN lonIntercept then None
      else let latIntercept = nadd (nmul (coeff_m ci) lonIntercept) (coeff_b ci) in
      if isNaN latIntercept then None
      else let pt = project st latIntercept lonIntercept in
      if nlt (pt_x pt) (Fin 0) \<or> nlt (pt_y pt) (Fin 0)
         \<or> ngt (pt_x pt) (g_sheetWidth st) \<or> ngt (pt_y pt) (g_sheetHeight st)
      then None
      else Some \<lparr> ix = nsub (pt_x pt) (ndiv (g_sheetWidth st) (Fin 2)),
                  iy = nsub (pt_y pt) (ndiv (g_sheetHeight st) (Fin 2)),
                  ilat = latIntercept,
                  ilon = lonIntercept \<rparr>)"

text \<open>The two \<open>for\<close> loops of \<open>redraw\<close>. The list \<open>coeffs\<close> has one entry for each
  line of position, so every index the loops read is in range.\<close>

function inner_loop ::
  "state \<Rightarrow> coeff list \<Rightarrow> nat \<Rightarrow> nat \<Rightarrow> intersection list \<Rightarrow> intersection list" where
  "inner_loop st coeffs i j acc =
     (if j < length (g_lops st)
      then inner_loop st coeffs i (j + 1)
             (case pair_intersection st (coeffs ! i) (coeffs ! j) of
                None \<Rightarrow> acc
              | Some p \<Rightarrow> acc @ [p])
      else acc)"
  by pat_completeness auto
termination
  by (relation "measure (\<lambda>(st, coeffs, i, j, acc). length (g_lops st) - j)") auto

declare inner_loop.simps [simp del]

function outer_loop ::
  "state \<Rightarrow> coeff list \<Rightarrow> nat \<Rightarrow> intersection list \<Rightarrow> intersection list" where
  "outer_loop st coeffs i acc =
     (if i < length (g_lops st)
      then outer_loop st coeffs (i + 1) (inner_loop st coeffs i (i + 1) acc)
      else acc)"
  by pat_completeness auto
termination
  by (relation "measure (\<lambda>(st, coeffs, i, acc). length (g_lops st) - i)") auto

declare outer_loop.simps [simp del]

text \<open>\<open>redraw\<close> sets the frame and computes the intersections again. Its calls on the
  canvas context write nothing that the program reads back and are left out. One of the loops
  left out draws the meridians for \<open>i\<close> from \<open>-n\<close> to \<open>n\<close>, where \<open>n\<close> is
  \<open>Math.ceil(width / lonScale / 2)\<close>: with a \<open>lonScale\<close> of 0 (a sheet 80 pixels high)
  \<open>n\<close> is infinite and that loop does not end, while this definition gives a state for
  every frame.\<close>

definition redraw :: "env \<Rightarrow> state \<Rightarrow> state" where
  "redraw e st0 =
     (let st = setCanvasDimensions e st0;
          coeffs = map lop_coeffs (g_lops st)
      in st\<lparr> g_intersections := outer_loop st coeffs 0 [] \<rparr>)"

section \<open>Event handlers\<close>

definition updateCenterLatitude :: "env \<Rightarrow> state \<Rightarrow> state" where
  "updateCenterLatitude e st =
     (case parseIntegerLatitude (input_value (el_ctrLat st)) of
        None \<Rightarrow> st\<lparr> el_ctrLat := flagInputError (el_ctrLat st) \<rparr>
      | Some newCtrLat \<Rightarrow>
          redraw e (st\<lparr> el_ctrLat := (el_ctrLat st)\<lparr>input_value := formatIntegerLatitude newCtrLat\<rparr>,
                         g_ctrLat := newCtrLat \<rparr>))"

definition updateCenterLongitude :: "env \<Rightarrow> state \<Rightarrow> state" where
  "updateCenterLongitude e st =
     (case parseIntegerLongitude (input_value (el_ctrLon st)) of
        None \<Rightarrow> st\<lparr> el_ctrLon := flagInputError (el_ctrLon st) \<rparr>
      | Some newCtrLon \<Rightarrow>
          redraw e (st\<lparr> el_ctrLon := (el_ctrLon st)\<lparr>input_value := formatIntegerLongitude newCtrLon\<rparr>,
                         g_ctrLon := newCtrLon \<rparr>))"

definition is_quote :: "nat \<Rightarrow> bool" where
  "is_quote c = (c \<in> {apostrophe, left_quote, right_quote})"

definition aRegex :: matcher where
  "aRegex =
     seq (grp 1 (seq (plus is_digit) (opt (grp 2 (seq (cls (\<lambda>c. c = 46)) (plus is_digit))))))
    (seq (star (\<lambda>c. c = space))
         (opt (cls is_quote)))"

definition updateA :: "state \<Rightarrow> state" where
  "updateA st =
     (let s = trim (input_value (el_a st)) in
      if s = [] then st\<lparr> g_draftLOP := (g_draftLOP st)\<lparr>draft_a := Num (Fin 0)\<rparr> \<rparr>
      else case js_match aRegex s of
        None \<Rightarrow> st\<lparr> el_a := flagInputError (el_a st),
                      g_draftLOP := (g_draftLOP st)\<lparr>draft_a := Undefined\<rparr> \<rparr>
      | Some m \<Rightarrow>
          (let a' = Number_of_group (m 1) in
           st\<lparr> el_a := (el_a st)\<lparr>input_value := toLocaleString a' 1 1 1 @ [right_quote]\<rparr>,
                g_draftLOP := (g_draftLOP st)
                   \<lparr>draft_a := Num (if el_aDir st = str ''T'' then a' else nneg a')\<rparr> \<rparr>))"

definition ZnRegex :: matcher where
  "ZnRegex =
     seq (grp 1 (rep is_digit 1 3))
    (seq (star (\<lambda>c. c = space))
         (opt (cls (\<lambda>c. c = degree_sign))))"

definition updateZn :: "state \<Rightarrow> state" where
  "updateZn st =
     (let s = trim (input_value (el_Zn st)) in
      if s = [] then st\<lparr> g_draftLOP := (g_draftLOP st)\<lparr>draft_Zn := Num (Fin 0)\<rparr> \<rparr>
      else case js_match ZnRegex s of
        None \<Rightarrow> st\<lparr> el_Zn := flagInputError (el_Zn st),
                      g_draftLOP := (g_draftLOP st)\<lparr>draft_Zn := Undefined\<rparr> \<rparr>
      | Some m \<Rightarrow>
          (let Zn' = Number_of_group (m 1) in
           if ngt Zn' (Fin 360)
           then st\<lparr> el_Zn := flagInputError (el_Zn st),
                     g_draftLOP := (g_draftLOP st)\<lparr>draft_Zn := Undefined\<rparr> \<rparr>
           else st\<lparr> el_Zn := (el_Zn st)\<lparr>input_value := toLocaleString Zn' 3 0 0 @ [degree_sign]\<rparr>,
                     g_draftLOP := (g_draftLOP st)\<lparr>draft_Zn := Num (radians Zn')\<rparr> \<rparr>))"

definition updateALat :: "state \<Rightarrow> state" where
  "updateALat st =
     (case parseIntegerLatitude (input_value (el_aLat st)) of
        None \<Rightarrow> st\<lparr> el_aLat := flagInputError (el_aLat st),
                      g_draftLOP := (g_draftLOP st)\<lparr>draft_aLat := Undefined\<rparr> \<rparr>
      | Some v \<Rightarrow> st\<lparr> el_aLat := (el_aLat st)\<lparr>input_value := formatIntegerLatitude v\<rparr>,
                        g_draftLOP := (g_draftLOP st)\<lparr>draft_aLat := Num v\<rparr> \<rparr>)"

definition updateALon :: "state \<Rightarrow> state" where
  "updateALon st =
     (case (case parseIntegerLongitude (input_value (el_aLon st)) of
              None \<Rightarrow> parseLongitude (input_value (el_aLon st))
            | Some v \<Rightarrow> Some v) of
        None \<Rightarrow> st\<lparr> el_aLon := flagInputError (el_aLon st),
                      g_draftLOP := (g_draftLOP st)\<lparr>draft_aLon := Undefined\<rparr> \<rparr>
      | Some v \<Rightarrow> st\<lparr> el_aLon := (el_aLon st)\<lparr>input_value := formatLongitude v\<rparr>,
                        g_draftLOP := (g_draftLOP st)\<lparr>draft_aLon := Num v\<rparr> \<rparr>)"

definition unusable :: "jsval \<Rightarrow> bool" where
  "unusable v = (v = Null \<or> v = Undefined)"

definition updateAddLOPButton :: "state \<Rightarrow> state" where
  "updateAddLOPButton st =
     st\<lparr> addLOPBtn_disabled :=
            unusable (draft_a (g_draftLOP st)) \<or> unusable (draft_Zn (g_draftLOP st))
          \<or> unusable (draft_aLat (g_draftLOP st)) \<or> unusable (draft_aLon (g_draftLOP st)) \<rparr>"

text \<open>\<open>Object.assign(lop, _draftLOP)\<close> copies the four entries of the draft. A line of
  position is read in arithmetic only, so the copy stores what such a read gives.\<close>

definition addLOP :: "env \<Rightarrow> state \<Rightarrow> state" where
  "addLOP e st =
     (let lop = \<lparr> lop_a = to_num (draft_a (g_draftLOP st)),
                  lop_Zn = to_num (draft_Zn (g_draftLOP st)),
                  lop_aLat = to_num (draft_aLat (g_draftLOP st)),
                  lop_aLon = to_num (draft_aLon (g_draftLOP st)) \<rparr>
      in redraw e (st\<lparr> addLOPBtn_disabled := True, g_lops := g_lops st @ [lop] \<rparr>))"

text \<open>The body of the \<open>forEach\<close> in \<open>updateCoordsDisplay\<close>: one intersection, and the
  value of \<open>snappedTo\<close> so far (\<open>None\<close> for \<open>null\<close>).\<close>

definition snap_step ::
  "jsnum \<Rightarrow> jsnum \<Rightarrow> intersection option \<Rightarrow> intersection \<Rightarrow> intersection option" where
  "snap_step x y snappedTo intersection =
     (let minDistanceSqrd = Fin 100;
          dSqrd = nadd (Math_sq (nsub x (ix intersection))) (Math_sq (nsub y (iy intersection)))
      in if ngt dSqrd minDistanceSqrd then snappedTo else Some intersection)"

definition updateCoordsDisplay :: "env \<Rightarrow> jsnum \<Rightarrow> jsnum \<Rightarrow> state \<Rightarrow> state" where
  "updateCoordsDisplay e event_x event_y st =
     (let x0 = nsub (nsub event_x (sheet_offsetLeft e)) (ndiv (g_sheetWidth st) (Fin 2));
          y0 = nsub (nsub event_y (sheet_offsetTop e)) (ndiv (g_sheetHeight st) (Fin 2));
          snappedTo = foldl (snap_step x0 y0) None (g_intersections st);
          x = (case snappedTo of None \<Rightarrow> x0 | Some p \<Rightarrow> ix p);
          y = (case snappedTo of None \<Rightarrow> y0 | Some p \<Rightarrow> iy p);
          lat = nadd (ndiv (nneg y) (g_latScale st)) (g_ctrLat st);
          lon = nadd (ndiv x (g_lonScale st)) (g_ctrLon st)
      in st\<lparr> coords_snapped := (snappedTo \<noteq> None),
              coords_text := formatLatitude lat @ [160, 160] @ formatLongitude lon \<rparr>)"

definition clearCoordsDisplay :: "state \<Rightarrow> state" where
  "clearCoordsDisplay st = st\<lparr> coords_text := [] \<rparr>"

text \<open>
  The events the handlers are installed for in \<open>window.onload\<close>. A change event carries
  the text the user left in the element; a click on the disabled button is not delivered.
  As in the source, a key pressed in the field of the central longitude clears the error
  marker of the field of the central latitude.
\<close>

datatype event =
    Change_ctrLat jsstring
  | Change_ctrLon jsstring
  | Change_a jsstring
  | Change_aDir jsstring
  | Change_Zn jsstring
  | Change_aLat jsstring
  | Change_aLon jsstring
  | Keydown_ctrLat | Keydown_ctrLon | Keydown_a | Keydown_Zn | Keydown_aLat | Keydown_aLon
  | Click_addLOPBtn
  | Mousemove jsnum jsnum
  | Mouseleave
  | Resize

definition set_value :: "jsstring \<Rightarrow> input \<Rightarrow> input" where
  "set_value s elem = elem\<lparr>input_value := s\<rparr>"

fun handle :: "env \<Rightarrow> event \<Rightarrow> state \<Rightarrow> state" where
  "handle e (Change_ctrLat s) st = updateCenterLatitude e (st\<lparr>el_ctrLat := set_value s (el_ctrLat st)\<rparr>)"
| "handle e (Change_ctrLon s) st = updateCenterLongitude e (st\<lparr>el_ctrLon := set_value s (el_ctrLon st)\<rparr>)"
| "handle e (Change_a s) st = updateAddLOPButton (updateA (st\<lparr>el_a := set_value s (el_a st)\<rparr>))"
| "handle e (Change_aDir s) st = updateAddLOPButton (updateA (st\<lparr>el_aDir := s\<rparr>))"
| "handle e (Change_Zn s) st = updateAddLOPButton (updateZn (st\<lparr>el_Zn := set_value s (el_Zn st)\<rparr>))"
| "handle e (Change_aLat s) st = updateAddLOPButton (updateALat (st\<lparr>el_aLat := set_value s (el_aLat st)\<rparr>))"
| "handle e (Change_aLon s) st = updateAddLOPButton (updateALon (st\<lparr>el_aLon := set_value s (el_aLon st)\<rparr>))"
| "handle e Keydown_ctrLat st = st\<lparr>el_ctrLat := clearInputError (el_ctrLat st)\<rparr>"
| "handle e Keydown_ctrLon st = st\<lparr>el_ctrLat := clearInputError (el_ctrLat st)\<rparr>"
| "handle e Keydown_a st = st\<lparr>el_a := clearInputError (el_a st)\<rparr>"
| "handle e Keydown_Zn st = st\<lparr>el_Zn := clearInputError (el_Zn st)\<rparr>"
| "handle e Keydown_aLat st = st\<lparr>el_aLat := clearInputError (el_aLat st)\<rparr>"
| "handle e Keydown_aLon st = st\<lparr>el_aLon := clearInputError (el_aLon st)\<rparr>"
| "handle e Click_addLOPBtn st = (if addLOPBtn_disabled st then st else addLOP e st)"
| "handle e (Mousemove x y) st = updateCoordsDisplay e x y st"
| "handle e Mouseleave st = clearCoordsDisplay st"
| "handle e Resize st = redraw e st"

text \<open>
  The state when the script has been loaded and the page is complete: the globals as
  their declarations leave them, the elements as the page has them.
\<close>

definition loaded :: "input \<Rightarrow> input \<Rightarrow> input \<Rightarrow> jsstring \<Rightarrow> input \<Rightarrow> input \<Rightarrow> input
    \<Rightarrow> bool \<Rightarrow> jsstring \<Rightarrow> bool \<Rightarrow> state" where
  "loaded ctrLat ctrLon a aDir Zn aLat aLon disabled coords snapped =
     \<lparr> g_ctrLat = NaN, g_ctrLon = NaN, g_latScale = NaN, g_lonScale = NaN,
       g_sheetWidth = NaN, g_sheetHeight = NaN,
       g_lops = [], g_intersections = [],
       g_draftLOP = \<lparr> draft_a = Undefined, draft_Zn = Undefined,
                      draft_aLat = Undefined, draft_aLon = Undefined \<rparr>,
       el_ctrLat = ctrLat, el_ctrLon = ctrLon, el_a = a, el_aDir = aDir, el_Zn = Zn,
       el_aLat = aLat, el_aLon = aLon,
       addLOPBtn_disabled = disabled, coords_text = coords, coords_snapped = snapped \<rparr>"

definition onload :: "env \<Rightarrow> state \<Rightarrow> state" where
  "onload e st =
     redraw e (updateCenterLongitude e (updateCenterLatitude e
       (updateAddLOPButton (updateALon (updateALat (updateZn (updateA
         (clearCoordsDisplay st))))))))"

text \<open>The states of a session: the one \<open>window.onload\<close> leaves, and every state an
  event handler leaves when it has run in one of them.\<close>

inductive reachable :: "state \<Rightarrow> bool" where
  start: "reachable (onload e (loaded ctrLat ctrLon a aDir Zn aLat aLon disabled coords snapped))"
| step: "reachable st \<Longrightarrow> reachable (handle e ev st)"

section \<open>Canonical texts\<close>

text \<open>The texts the formatters are expected to produce, written with the digits of the
  numbers they show.\<close>

definition two_digits :: "nat \<Rightarrow> jsstring" where
  "two_digits n = [48 + n div 10, 48 + n mod 10]"

definition three_digits :: "nat \<Rightarrow> jsstring" where
  "three_digits n = [48 + n div 100, 48 + n div 10 mod 10, 48 + n mod 10]"

definition direction_letter :: "real \<Rightarrow> nat \<Rightarrow> nat \<Rightarrow> jsstring" where
  "direction_letter x pos neg = (if 0 < x then [space, pos] else if x < 0 then [space, neg] else [])"

definition whole_degrees :: "real \<Rightarrow> nat" where
  "whole_degrees x = nat \<lfloor>\<bar>x\<bar>\<rfloor>"

definition rounded_degrees :: "real \<Rightarrow> nat" where
  "rounded_degrees x = nat \<lfloor>\<bar>x\<bar> + 1 / 2\<rfloor>"

definition tenths_of_minutes :: "real \<Rightarrow> nat" where
  "tenths_of_minutes x = nat \<lfloor>(\<bar>x\<bar> - of_int \<lfloor>\<bar>x\<bar>\<rfloor>) * 60 * 10 + 1 / 2\<rfloor>"

section \<open>Example sessions\<close>

text \<open>A window of 1000 by 600 pixels whose header and footer take 60 pixels each:
  the sheet is 1000 by 480 pixels and a degree of latitude is 100 pixels.\<close>

definition window_1000_600 :: env where
  "window_1000_600 =
     \<lparr> innerWidth = Fin 1000, innerHeight = Fin 600,
       header_clientHeight = Fin 60, footer_clientHeight = Fin 60,
       sheet_offsetLeft = Fin 0, sheet_offsetTop = Fin 0 \<rparr>"

definition blank :: input where
  "blank = \<lparr> input_value = [], input_error = False \<rparr>"

text \<open>A page whose input elements are all empty, with the direction set to Toward.\<close>

definition blank_page :: state where
  "blank_page = loaded blank blank blank (str ''T'') blank blank blank True [] False"

text \<open>A sheet centred on the equator and the prime meridian that shows two intersections,
  one pixel and five pixels to the right of its centre.\<close>

definition two_marks :: state where
  "two_marks =
     \<lparr> g_ctrLat = Fin 0, g_ctrLon = Fin 0, g_latScale = Fin 100, g_lonScale = Fin 100,
       g_sheetWidth = Fin 1000, g_sheetHeight = Fin 480,
       g_lops = [], 
       g_intersections =
         [\<lparr> ix = Fin 1, iy = Fin 0, ilat = Fin 0, ilon = Fin (1 / 100) \<rparr>,
          \<lparr> ix = Fin 5, iy = Fin 0, ilat = Fin 0, ilon = Fin (5 / 100) \<rparr>],
       g_draftLOP = \<lparr> draft_a = Num (Fin 0), draft_Zn = Num (Fin 0),
                      draft_aLat = Num (Fin 0), draft_aLon = Num (Fin 0) \<rparr>,
       el_ctrLat = blank, el_ctrLon = blank, el_a = blank, el_aDir = str ''T'', el_Zn = blank,
       el_aLat = blank, el_aLon = blank,
       addLOPBtn_disabled = False, coords_text = [], coords_snapped = False \<rparr>"

text \<open>Whether an intersection is within ten pixels of the point \<open>(x, y)\<close>, and the
  first of the nearest ones among a list of intersections, as the readout is described.\<close>

definition distance_sq :: "jsnum \<Rightarrow> jsnum \<Rightarrow> intersection \<Rightarrow> jsnum" where
  "distance_sq x y p = nadd (Math_sq (nsub x (ix p))) (Math_sq (nsub y (iy p)))"

definition within_radius :: "jsnum \<Rightarrow> jsnum \<Rightarrow> intersection \<Rightarrow> bool" where
  "within_radius x y p = (\<not> ngt (distance_sq x y p) (Fin 100))"

fun nearest :: "jsnum \<Rightarrow> jsnum \<Rightarrow> intersection list \<Rightarrow> intersection option" where
  "nearest x y [] = None"
| "nearest x y (p # ps) =
     (case nearest x y ps of
        None \<Rightarrow> Some p
      | Some q \<Rightarrow> if nlt (distance_sq x y q) (distance_sq x y p) then Some q else Some p)"

section \<open>Properties of a session state\<close>

text \<open>The sheet frame is consistent: the scale of the longitudes is the scale of the
  latitudes times the cosine of the central latitude.\<close>

definition frame_consistent :: "state \<Rightarrow> bool" where
  "frame_consistent st =
     (g_lonScale st = nmul (g_latScale st) (Math_cos (radians (g_ctrLat st))))"

text \<open>When the text of the distance field, and of the bearing field, fails to parse.\<close>

definition a_fails :: "jsstring \<Rightarrow> bool" where
  "a_fails s = (trim s \<noteq> [] \<and> js_match aRegex (trim s) = None)"

definition Zn_fails :: "jsstring \<Rightarrow> bool" where
  "Zn_fails s =
     (trim s \<noteq> [] \<and>
      (case js_match ZnRegex (trim s) of
         None \<Rightarrow> True
       | Some m \<Rightarrow> ngt (Number_of_group (m 1)) (Fin 360)))"

text \<open>A page whose six fields hold texts that do not parse.\<close>

definition bad_page :: state where
  "bad_page = loaded
     \<lparr> input_value = str ''95 N'', input_error = False \<rparr>
     \<lparr> input_value = str ''200 E'', input_error = False \<rparr>
     \<lparr> input_value = str ''12a'', input_error = False \<rparr>
     (str ''T'')
     \<lparr> input_value = str ''400'', input_error = False \<rparr>
     \<lparr> input_value = str ''N 35'', input_error = False \<rparr>
     \<lparr> input_value = str ''180 30 W'', input_error = False \<rparr>
     True [] False"

text \<open>An azimuth in the closed interval from 0 to \<open>2\<pi>\<close>.\<close>

definition azimuth_ok :: "jsnum \<Rightarrow> bool" where
  "azimuth_ok z = (case z of Fin r \<Rightarrow> 0 \<le> r \<and> r \<le> 2 * pi | _ \<Rightarrow> False)"

text \<open>The session in which the user, on the blank page, types the bearing 360 and
  clicks the Add button.\<close>

definition session_360 :: state where
  "session_360 =
     handle window_1000_600 Click_addLOPBtn
       (handle window_1000_600 (Change_Zn (str ''360''))
          (onload window_1000_600 blank_page))"

text \<open>What the handlers keep true of the azimuths: every line of position has an azimuth
  in range, the draft's azimuth is in range or \<open>undefined\<close>, and the Add button is
  enabled only while the draft's azimuth is a number.\<close>

definition azimuths_ok :: "state \<Rightarrow> bool" where
  "azimuths_ok st =
     (list_all (\<lambda>l. azimuth_ok (lop_Zn l)) (g_lops st)
      \<and> (case draft_Zn (g_draftLOP st) of
            Undefined \<Rightarrow> True | Null \<Rightarrow> False | Num z \<Rightarrow> azimuth_ok z)
      \<and> (addLOPBtn_disabled st \<or> draft_Zn (g_draftLOP st) \<noteq> Undefined))"

section \<open>The intersection engine as it is described\<close>

text \<open>The line through two geographic points, latitude = m longitude + b.\<close>

definition fit_line :: "geo \<Rightarrow> geo \<Rightarrow> coeff" where
  "fit_line a b =
     (let m = ndiv (nsub (geo_lat b) (geo_lat a)) (nsub (geo_lon b) (geo_lon a))
      in \<lparr> coeff_m = m, coeff_b = nsub (geo_lat a) (nmul m (geo_lon a)) \<rparr>)"

text \<open>The auxiliary point at \<open>offset\<close> degrees from the azimuth of a line of position,
  at twice its distance, and the line through the two auxiliary points at \<open>offset\<close> and
  \<open>- offset\<close> degrees.\<close>

definition auxiliary_point :: "real \<Rightarrow> lop \<Rightarrow> geo" where
  "auxiliary_point offset l =
     rhumbPoint (lop_aLat l) (lop_aLon l) (nadd (lop_Zn l) (radians (Fin offset)))
       (nmul (Fin 2) (lop_a l))"

definition line_equation :: "real \<Rightarrow> lop \<Rightarrow> coeff" where
  "line_equation offset l = fit_line (auxiliary_point offset l) (auxiliary_point (- offset) l)"

text \<open>The pairs of indices \<open>(i, j)\<close> with \<open>i < j < n\<close>, by \<open>i\<close> and then by \<open>j\<close>.\<close>

definition index_pairs :: "nat \<Rightarrow> (nat \<times> nat) list" where
  "index_pairs n = concat (map (\<lambda>i. map (Pair i) [i + 1..<n]) [0..<n])"

definition lonIntercept :: "coeff \<Rightarrow> coeff \<Rightarrow> jsnum" where
  "lonIntercept ci cj = ndiv (nsub (coeff_b cj) (coeff_b ci)) (nsub (coeff_m ci) (coeff_m cj))"

definition latIntercept :: "coeff \<Rightarrow> coeff \<Rightarrow> jsnum" where
  "latIntercept ci cj = nadd (nmul (coeff_m ci) (lonIntercept ci cj)) (coeff_b ci)"


text \<open>A line of position 30 miles due north of the point 0, 0; one of 30 miles at
  azimuth 60 degrees from the same point; and a sheet that shows both.\<close>

definition north_30 :: lop where
  "north_30 = \<lparr> lop_a = Fin 30, lop_Zn = Fin 0, lop_aLat = Fin 0, lop_aLon = Fin 0 \<rparr>"


definition east_north_east_30 :: lop where
  "east_north_east_30 = \<lparr> lop_a = Fin 30, lop_Zn = Fin (pi / 3), lop_aLat = Fin 0, lop_aLon = Fin 0 \<rparr>"

definition crossing_sheet :: state where
  "crossing_sheet = two_marks \<lparr> g_lops := [north_30, east_north_east_30], g_intersections := [] \<rparr>"




section \<open>Evaluation rules\<close>

lemmas rx_defs = degreesRegex_def minutesRegex_def aRegex_def ZnRegex_def grp_def seq_def
  alt_def opt_def star_def rep_def plus_def cls_def eps_def js_match_def

lemmas ch_defs = str_def is_digit_def is_quote_def space_def degree_sign_def apostrophe_def
  left_quote_def right_quote_def

lemmas parse_defs = parseIntegerLatitude_def parseIntegerLongitude_def parseLongitude_def
  parseDegreesDirection_def toUpperCase_def trim_def is_ws_def upper_unit_def
  Number_of_group_def Number_def digits_val_def

lemmas num_defs = nadd_def nsub_def nmul_def ndiv_def ngt_def nlt_def nneg_def isNaN_def
  nsign_def inf_of_def Math_abs_def Math_trunc_def Math_cos_def Math_sin_def Math_PI_def
  Math_sq_def radians_def

section \<open>Digits and the number formatter\<close>

lemma decimal_1: "n < 10 \<Longrightarrow> decimal n = [48 + n]"
  by (simp add: decimal.simps)

lemma decimal_2: "10 \<le> n \<Longrightarrow> n < 100 \<Longrightarrow> decimal n = [48 + n div 10, 48 + n mod 10]"
  by (subst decimal.simps) (simp add: decimal_1)

lemma decimal_3:
  "100 \<le> n \<Longrightarrow> n < 1000 \<Longrightarrow> decimal n = [48 + n div 100, 48 + n div 10 mod 10, 48 + n mod 10]"
  by (subst decimal.simps) (simp add: decimal_2 div_mult2_eq[symmetric])

lemma zero_pad_2: 
  assumes "n < 100" shows "zero_pad 2 (decimal n) = [48 + n div 10, 48 + n mod 10]"
proof (cases "n < 10")
  case True
  then show ?thesis by (simp add: zero_pad_def decimal_1)
next
  case False
  with assms show ?thesis by (simp add: zero_pad_def decimal_2)
qed

lemma zero_pad_3: 
  assumes "n < 1000"
  shows "zero_pad 3 (decimal n) = [48 + n div 100, 48 + n div 10 mod 10, 48 + n mod 10]"
proof -
  consider "n < 10" | "10 \<le> n" "n < 100" | "100 \<le> n"
    by linarith
  then show ?thesis
  proof cases
    case 1
    then show ?thesis by (simp add: zero_pad_def decimal_1 numeral_3_eq_3)
  next
    case 2
    then show ?thesis by (simp add: zero_pad_def decimal_2)
  next
    case 3
    with assms show ?thesis by (simp add: zero_pad_def decimal_3)
  qed
qed

lemma zero_pad_1: "n < 10 \<Longrightarrow> zero_pad (Suc 0) (decimal n) = [48 + n]"
  by (simp add: zero_pad_def decimal_1)

lemma group3_short: "length ds \<le> 3 \<Longrightarrow> group3 ds = ds"
  by (simp add: group3.simps)

lemma strip_zeros_min: "length ds \<le> k \<Longrightarrow> strip_zeros k ds = ds"
  by (simp add: strip_zeros.simps)

lemma toLocaleString_int2:
  assumes "nat \<lfloor>\<bar>r\<bar> + 1 / 2\<rfloor> < 100" "0 \<le> r"
  shows "toLocaleString (Fin r) 2 0 0 = 
     [48 + nat \<lfloor>\<bar>r\<bar> + 1 / 2\<rfloor> div 10, 48 + nat \<lfloor>\<bar>r\<bar> + 1 / 2\<rfloor> mod 10]"
  using assms by (simp add: toLocaleString_def zero_pad_2 group3_short strip_zeros_min)

lemma toLocaleString_int3:
  assumes "nat \<lfloor>\<bar>r\<bar> + 1 / 2\<rfloor> < 1000" "0 \<le> r"
  shows "toLocaleString (Fin r) 3 0 0 = 
     [48 + nat \<lfloor>\<bar>r\<bar> + 1 / 2\<rfloor> div 100, 48 + nat \<lfloor>\<bar>r\<bar> + 1 / 2\<rfloor> div 10 mod 10,
      48 + nat \<lfloor>\<bar>r\<bar> + 1 / 2\<rfloor> mod 10]"
  using assms by (simp add: toLocaleString_def zero_pad_3 group3_short strip_zeros_min)

lemma toLocaleString_tenths:
  assumes "nat \<lfloor>\<bar>r\<bar> * 10 + 1 / 2\<rfloor> < 1000" "0 \<le> r"
  shows "toLocaleString (Fin r) 2 1 1 = 
     [48 + nat \<lfloor>\<bar>r\<bar> * 10 + 1 / 2\<rfloor> div 100, 48 + nat \<lfloor>\<bar>r\<bar> * 10 + 1 / 2\<rfloor> div 10 mod 10, 46,
      48 + nat \<lfloor>\<bar>r\<bar> * 10 + 1 / 2\<rfloor> mod 10]"
proof -
  let ?s = "nat \<lfloor>\<bar>r\<bar> * 10 + 1 / 2\<rfloor>"
  have a: "?s div 10 < 100" using assms by simp
  have b: "?s mod 10 < 10" by simp
  show ?thesis
    using assms a 
    by (simp add: toLocaleString_def Let_def zero_pad_2 zero_pad_1 group3_short strip_zeros_min
        div_mult2_eq[symmetric])
qed


lemma direction_suffix_Fin:
  "direction_suffix (Fin x) [p] [n] = direction_letter x p n"
  by (simp add: direction_suffix_def direction_letter_def ngt_def nlt_def)

lemma floor_int_half: "\<lfloor>\<bar>real_of_int k\<bar> + 1 / 2\<rfloor> = \<bar>k\<bar>"
  by linarith

lemma nat_floor_less: 
  assumes "r < real n" and "0 < n" shows "nat \<lfloor>r\<rfloor> < n"
proof -
  have "\<lfloor>r\<rfloor> < int n" using assms by (simp add: floor_less_iff)
  then show ?thesis using assms(2) by linarith
qed

lemma tenths_bound: "tenths_of_minutes x < 601"
proof -
  have "\<bar>x\<bar> - of_int \<lfloor>\<bar>x\<bar>\<rfloor> < 1" by linarith
  then have "(\<bar>x\<bar> - of_int \<lfloor>\<bar>x\<bar>\<rfloor>) * 60 * 10 + 1 / 2 < real 601" by simp
  then show ?thesis unfolding tenths_of_minutes_def by (rule nat_floor_less) simp
qed

lemma formatDegreesDirection_2:
  assumes "\<bar>x\<bar> < 199 / 2"
  shows "formatDegreesDirection (Fin x) 2 [p] [n]
       = two_digits (rounded_degrees x) @ [degree_sign] @ direction_letter x p n"
proof -
  have "\<bar>x\<bar> + 1 / 2 < real 100" using assms by simp
  then have "nat \<lfloor>\<bar>x\<bar> + 1 / 2\<rfloor> < 100" by (rule nat_floor_less) simp
  then have "nat \<lfloor>\<bar>\<bar>x\<bar>\<bar> + 1 / 2\<rfloor> < 100" by simp
  then show ?thesis
    by (simp add: formatDegreesDirection_def Math_abs_def toLocaleString_int2
        direction_suffix_Fin two_digits_def rounded_degrees_def)
qed

lemma formatDegreesDirection_3:
  assumes "\<bar>x\<bar> < 1999 / 2"
  shows "formatDegreesDirection (Fin x) 3 [p] [n]
       = three_digits (rounded_degrees x) @ [degree_sign] @ direction_letter x p n"
proof -
  have "\<bar>x\<bar> + 1 / 2 < real 1000" using assms by simp
  then have "nat \<lfloor>\<bar>x\<bar> + 1 / 2\<rfloor> < 1000" by (rule nat_floor_less) simp
  then have "nat \<lfloor>\<bar>\<bar>x\<bar>\<bar> + 1 / 2\<rfloor> < 1000" by simp
  then show ?thesis
    by (simp add: formatDegreesDirection_def Math_abs_def toLocaleString_int3
        direction_suffix_Fin three_digits_def rounded_degrees_def)
qed

lemma minutes_text:
  "toLocaleString (nmul (nsub (Math_abs (Fin x)) (Math_trunc (Math_abs (Fin x)))) (Fin 60)) 2 1 1
     = two_digits (tenths_of_minutes x div 10) @ [46, 48 + tenths_of_minutes x mod 10]"
proof -
  let ?m = "(\<bar>x\<bar> - of_int \<lfloor>\<bar>x\<bar>\<rfloor>) * 60"
  have m0: "0 \<le> ?m" by simp
  have eq: "nmul (nsub (Math_abs (Fin x)) (Math_trunc (Math_abs (Fin x)))) (Fin 60) = Fin ?m"
    by (simp add: Math_abs_def Math_trunc_def nsub_def nadd_def nneg_def nmul_def)
  have t: "nat \<lfloor>\<bar>?m\<bar> * 10 + 1 / 2\<rfloor> = tenths_of_minutes x"
    using m0 by (simp add: tenths_of_minutes_def abs_of_nonneg)
  have "nat \<lfloor>\<bar>?m\<bar> * 10 + 1 / 2\<rfloor> < 1000"
    using tenths_bound[of x] unfolding t by simp
  from toLocaleString_tenths[OF this m0] show ?thesis
    unfolding eq t by (simp add: two_digits_def div_mult2_eq[symmetric])
qed

lemma degrees_text_2:
  assumes "\<bar>x\<bar> < 100"
  shows "toLocaleString (Math_trunc (Math_abs (Fin x))) 2 0 0 = two_digits (whole_degrees x)"
proof -
  have eq: "Math_trunc (Math_abs (Fin x)) = Fin (of_int \<lfloor>\<bar>x\<bar>\<rfloor>)"
    by (simp add: Math_abs_def Math_trunc_def)
  have f: "\<lfloor>\<bar>real_of_int \<lfloor>\<bar>x\<bar>\<rfloor>\<bar> + 1 / 2\<rfloor> = \<lfloor>\<bar>x\<bar>\<rfloor>"
    by (simp add: floor_int_half)
  have "\<bar>x\<bar> < real 100" using assms by simp
  then have "nat \<lfloor>\<bar>x\<bar>\<rfloor> < 100" by (rule nat_floor_less) simp
  then have "nat \<lfloor>\<bar>real_of_int \<lfloor>\<bar>x\<bar>\<rfloor>\<bar> + 1 / 2\<rfloor> < 100" unfolding f by simp
  from toLocaleString_int2[OF this] show ?thesis
    unfolding eq f by (simp add: two_digits_def whole_degrees_def)
qed

lemma degrees_text_3:
  assumes "\<bar>x\<bar> < 1000"
  shows "toLocaleString (Math_trunc (Math_abs (Fin x))) 3 0 0 = three_digits (whole_degrees x)"
proof -
  have eq: "Math_trunc (Math_abs (Fin x)) = Fin (of_int \<lfloor>\<bar>x\<bar>\<rfloor>)"
    by (simp add: Math_abs_def Math_trunc_def)
  have f: "\<lfloor>\<bar>real_of_int \<lfloor>\<bar>x\<bar>\<rfloor>\<bar> + 1 / 2\<rfloor> = \<lfloor>\<bar>x\<bar>\<rfloor>"
    by (simp add: floor_int_half)
  have "\<bar>x\<bar> < real 1000" using assms by simp
  then have "nat \<lfloor>\<bar>x\<bar>\<rfloor> < 1000" by (rule nat_floor_less) simp
  then have "nat \<lfloor>\<bar>real_of_int \<lfloor>\<bar>x\<bar>\<rfloor>\<bar> + 1 / 2\<rfloor> < 1000" unfolding f by simp
  from toLocaleString_int3[OF this] show ?thesis
    unfolding eq f by (simp add: three_digits_def whole_degrees_def)
qed

lemma formatDegreesMinutesDirection_2:
  assumes "\<bar>x\<bar> < 100"
  shows "formatDegreesMinutesDirection (Fin x) 2 [p] [n]
       = two_digits (whole_degrees x) @ [degree_sign, space]
         @ two_digits (tenths_of_minutes x div 10) @ [46, 48 + tenths_of_minutes x mod 10]
         @ [right_quote] @ direction_letter x p n"
  unfolding formatDegreesMinutesDirection_def Let_def degrees_text_2[OF assms] minutes_text
      direction_suffix_Fin by simp

lemma formatDegreesMinutesDirection_3:
  assumes "\<bar>x\<bar> < 1000"
  shows "formatDegreesMinutesDirection (Fin x) 3 [p] [n]
       = three_digits (whole_degrees x) @ [degree_sign, space]
         @ two_digits (tenths_of_minutes x div 10) @ [46, 48 + tenths_of_minutes x mod 10]
         @ [right_quote] @ direction_letter x p n"
  unfolding formatDegreesMinutesDirection_def Let_def degrees_text_3[OF assms] minutes_text
      direction_suffix_Fin by simp

section \<open>Parsing canonical texts\<close>

lemma parseIntegerLatitude_canonical:
  assumes "d1 < 10" "d0 < 10"
  shows "parseIntegerLatitude [48 + d1, 48 + d0, 176]
           = (if 89 < real (10 * d1 + d0) then None else Some (Fin (real (10 * d1 + d0))))"
    and "parseIntegerLatitude [48 + d1, 48 + d0, 176, 32, 78]
           = (if 89 < real (10 * d1 + d0) then None else Some (Fin (real (10 * d1 + d0))))"
    and "parseIntegerLatitude [48 + d1, 48 + d0, 176, 32, 83]
           = (if 89 < real (10 * d1 + d0) then None else Some (Fin (- real (10 * d1 + d0))))"
  using assms by (simp_all add: parse_defs rx_defs ch_defs num_defs)

lemma parseIntegerLongitude_canonical:
  assumes "d2 < 10" "d1 < 10" "d0 < 10"
  shows "parseIntegerLongitude [48 + d2, 48 + d1, 48 + d0, 176]
           = (if 180 < real (100 * d2 + 10 * d1 + d0) then None
              else Some (Fin (real (100 * d2 + 10 * d1 + d0))))"
    and "parseIntegerLongitude [48 + d2, 48 + d1, 48 + d0, 176, 32, 69]
           = (if 180 < real (100 * d2 + 10 * d1 + d0) then None
              else Some (Fin (real (100 * d2 + 10 * d1 + d0))))"
    and "parseIntegerLongitude [48 + d2, 48 + d1, 48 + d0, 176, 32, 87]
           = (if 180 < real (100 * d2 + 10 * d1 + d0) then None
              else Some (Fin (- real (100 * d2 + 10 * d1 + d0))))"
  using assms by (simp_all add: parse_defs rx_defs ch_defs num_defs)

lemma parseLongitude_canonical_E:
  assumes "d2 < 10" "d1 < 10" "d0 < 10" "m1 < 10" "m0 < 10" "t < 10"
  shows "parseLongitude [48 + d2, 48 + d1, 48 + d0, 176, 32, 48 + m1, 48 + m0, 46, 48 + t, 8217, 32, 69]
     = (if 180 < real (100 * d2 + 10 * d1 + d0) + (real (10 * m1 + m0) + real t / 10) / 60 then None
        else Some (Fin (real (100 * d2 + 10 * d1 + d0) + (real (10 * m1 + m0) + real t / 10) / 60)))"
  using assms by (simp add: parse_defs rx_defs ch_defs num_defs)

lemma parseLongitude_canonical_W:
  assumes "d2 < 10" "d1 < 10" "d0 < 10" "m1 < 10" "m0 < 10" "t < 10"
  shows "parseLongitude [48 + d2, 48 + d1, 48 + d0, 176, 32, 48 + m1, 48 + m0, 46, 48 + t, 8217, 32, 87]
     = (if 180 < real (100 * d2 + 10 * d1 + d0) + (real (10 * m1 + m0) + real t / 10) / 60 then None
        else Some (Fin (- (real (100 * d2 + 10 * d1 + d0) + (real (10 * m1 + m0) + real t / 10) / 60))))"
  using assms by (simp add: parse_defs rx_defs ch_defs num_defs)

lemma parseLongitude_canonical_0:
  assumes "d2 < 10" "d1 < 10" "d0 < 10" "m1 < 10" "m0 < 10" "t < 10"
  shows "parseLongitude [48 + d2, 48 + d1, 48 + d0, 176, 32, 48 + m1, 48 + m0, 46, 48 + t, 8217]
     = (if 180 < real (100 * d2 + 10 * d1 + d0) + (real (10 * m1 + m0) + real t / 10) / 60 then None
        else Some (Fin (real (100 * d2 + 10 * d1 + d0) + (real (10 * m1 + m0) + real t / 10) / 60)))"
  using assms by (simp add: parse_defs rx_defs ch_defs num_defs)

lemma parseIntegerLongitude_rejects_minutes:
  assumes "d2 < 10" "d1 < 10" "d0 < 10" "m1 < 10" "m0 < 10" "t < 10"
  shows "parseIntegerLongitude [48 + d2, 48 + d1, 48 + d0, 176, 32, 48 + m1, 48 + m0, 46, 48 + t, 8217] = None"
    and "parseIntegerLongitude [48 + d2, 48 + d1, 48 + d0, 176, 32, 48 + m1, 48 + m0, 46, 48 + t, 8217, 32, 69] = None"
    and "parseIntegerLongitude [48 + d2, 48 + d1, 48 + d0, 176, 32, 48 + m1, 48 + m0, 46, 48 + t, 8217, 32, 87] = None"
  using assms by (simp_all add: parse_defs rx_defs ch_defs num_defs)

lemma parseLongitude_whole_minutes_E:
  assumes "d2 < 10" "d1 < 10" "d0 < 10" "m1 < 10" "m0 < 10"
  shows "parseLongitude [48 + d2, 48 + d1, 48 + d0, 176, 32, 48 + m1, 48 + m0, 8217, 32, 69]
     = (if 180 < real (100 * d2 + 10 * d1 + d0) + real (10 * m1 + m0) / 60 then None
        else Some (Fin (real (100 * d2 + 10 * d1 + d0) + real (10 * m1 + m0) / 60)))"
  using assms by (simp add: parse_defs rx_defs ch_defs num_defs)

lemma parseLongitude_one_digit_minutes_E:
  assumes "d2 < 10" "d1 < 10" "d0 < 10" "m0 < 10"
  shows "parseLongitude [48 + d2, 48 + d1, 48 + d0, 176, 32, 48 + m0, 8217, 32, 69]
     = (if 180 < real (100 * d2 + 10 * d1 + d0) + real m0 / 60 then None
        else Some (Fin (real (100 * d2 + 10 * d1 + d0) + real m0 / 60)))"
  using assms by (simp add: parse_defs rx_defs ch_defs num_defs)

lemma digits_2: "10 * (n div 10) + n mod 10 = (n::nat)"
  by simp

lemma digits_3: "100 * (n div 100) + 10 * (n div 10 mod 10) + n mod 10 = (n::nat)"
proof -
  have a: "n div 100 = n div 10 div 10" by (simp add: div_mult2_eq)
  have "10 * (n div 10 div 10) + n div 10 mod 10 = n div 10" by simp
  then have "100 * (n div 10 div 10) + 10 * (n div 10 mod 10) = 10 * (n div 10)" by linarith
  then show ?thesis unfolding a by simp
qed

section \<open>The loops of the intersection engine\<close>

lemma sixty_degrees: "ndiv (nmul (Fin 2) Math_PI) (Fin 6) = radians (Fin 60)"
  by (simp add: num_defs)

lemma minus_sixty_degrees:
  "nsub z (radians (Fin 60)) = nadd z (radians (Fin (- 60)))"
  by (simp add: num_defs)

lemma lop_coeffs_is_line_equation_60: "lop_coeffs l = line_equation 60 l"
  unfolding lop_coeffs_def line_equation_def fit_line_def auxiliary_point_def Let_def
    sixty_degrees minus_sixty_degrees
  by simp

lemma map_filter_append [simp]:
  "List.map_filter f (xs @ ys) = List.map_filter f xs @ List.map_filter f ys"
  by (simp add: List.map_filter_def)

lemma map_filter_concat:
  "List.map_filter f (concat xss) = concat (map (List.map_filter f) xss)"
  by (induction xss) (simp_all add: List.map_filter_simps)

lemma map_filter_map: "List.map_filter f (map g xs) = List.map_filter (f \<circ> g) xs"
  by (simp add: List.map_filter_def filter_map comp_def)

lemma inner_loop_eq:
  "inner_loop st cs i j acc
     = acc @ List.map_filter (\<lambda>j. pair_intersection st (cs ! i) (cs ! j)) [j..<length (g_lops st)]"
proof (induction st cs i j acc rule: inner_loop.induct)
  case (1 st cs i j acc)
  let ?acc = "case pair_intersection st (cs ! i) (cs ! j) of
                None \<Rightarrow> acc | Some p \<Rightarrow> acc @ [p]"
  show ?case
  proof (cases "j < length (g_lops st)")
    case True
    then have u: "[j..<length (g_lops st)] = j # [j + 1..<length (g_lops st)]"
      by (simp add: upt_conv_Cons)
    have "inner_loop st cs i j acc = inner_loop st cs i (j + 1) ?acc"
      using True by (subst inner_loop.simps) simp
    also have "\<dots> = ?acc @ List.map_filter (\<lambda>j. pair_intersection st (cs ! i) (cs ! j))
                           [j + 1..<length (g_lops st)]"
      by (rule "1.IH"[OF True])
    also have "\<dots> = acc @ List.map_filter (\<lambda>j. pair_intersection st (cs ! i) (cs ! j))
                           [j..<length (g_lops st)]"
      unfolding u by (cases "pair_intersection st (cs ! i) (cs ! j)")
        (simp_all add: List.map_filter_simps)
    finally show ?thesis .
  next
    case False
    then show ?thesis
      by (subst inner_loop.simps) (simp add: List.map_filter_simps)
  qed
qed

lemma outer_loop_eq:
  "outer_loop st cs i acc
     = acc @ concat (map (\<lambda>i. List.map_filter (\<lambda>j. pair_intersection st (cs ! i) (cs ! j))
                                 [i + 1..<length (g_lops st)])
                         [i..<length (g_lops st)])"
proof (induction st cs i acc rule: outer_loop.induct)
  case (1 st cs i acc)
  show ?case
  proof (cases "i < length (g_lops st)")
    case True
    then have u: "[i..<length (g_lops st)] = i # [i + 1..<length (g_lops st)]"
      by (simp add: upt_conv_Cons)
    have "outer_loop st cs i acc
            = outer_loop st cs (i + 1) (inner_loop st cs i (i + 1) acc)"
      using True by (subst outer_loop.simps) simp
    also have "\<dots> = inner_loop st cs i (i + 1) acc
        @ concat (map (\<lambda>i. List.map_filter (\<lambda>j. pair_intersection st (cs ! i) (cs ! j))
                                 [i + 1..<length (g_lops st)])
                         [i + 1..<length (g_lops st)])"
      by (rule "1.IH"[OF True])
    finally show ?thesis
      unfolding u inner_loop_eq by simp
  next
    case False
    then show ?thesis
      by (subst outer_loop.simps) simp
  qed
qed

lemma outer_loop_pairs:
  "outer_loop st cs 0 []
     = List.map_filter (\<lambda>(i, j). pair_intersection st (cs ! i) (cs ! j))
         (index_pairs (length (g_lops st)))"
  by (simp add: outer_loop_eq index_pairs_def map_filter_concat map_filter_map comp_def)

lemma redraw_intersections:
  "g_intersections (redraw e st)
     = List.map_filter
         (\<lambda>(i, j). pair_intersection (setCanvasDimensions e st)
                     (lop_coeffs (g_lops st ! i)) (lop_coeffs (g_lops st ! j)))
         (index_pairs (length (g_lops st)))"
proof -
  have l: "g_lops (setCanvasDimensions e st) = g_lops st"
    by (simp add: setCanvasDimensions_def Let_def)
  have "\<And>i j. (i, j) \<in> set (index_pairs (length (g_lops st))) \<Longrightarrow>
          i < length (g_lops st) \<and> j < length (g_lops st)"
    by (auto simp: index_pairs_def)
  then have "List.map_filter
         (\<lambda>(i, j). pair_intersection (setCanvasDimensions e st)
                     (map lop_coeffs (g_lops st) ! i) (map lop_coeffs (g_lops st) ! j))
         (index_pairs (length (g_lops st)))
    = List.map_filter
         (\<lambda>(i, j). pair_intersection (setCanvasDimensions e st)
                     (lop_coeffs (g_lops st ! i)) (lop_coeffs (g_lops st ! j)))
         (index_pairs (length (g_lops st)))"
    unfolding List.map_filter_def
    by (intro arg_cong2[where f = map] filter_cong map_cong refl ext) auto
  then show ?thesis
    by (simp add: redraw_def Let_def outer_loop_pairs l)
qed

lemma pair_intersection_formula:
  assumes "pair_intersection st ci cj = Some p"
  shows "ilon p = lonIntercept ci cj \<and> ilat p = latIntercept ci cj"
  using assms
  by (auto simp: pair_intersection_def lonIntercept_def latIntercept_def Let_def
      split: if_splits)

lemma auxiliary_point_Fin:
  assumes "cos (lat / 180 * pi) \<noteq> 0"
  shows "auxiliary_point d \<lparr> lop_a = Fin a, lop_Zn = Fin z, lop_aLat = Fin lat, lop_aLon = Fin lon \<rparr>
     = \<lparr> geo_lat = Fin (lat + cos (z + d / 180 * pi) * (2 * a) / 60),
         geo_lon = Fin (lon + sin (z + d / 180 * pi) * (2 * a / cos (lat / 180 * pi)) / 60) \<rparr>"
  using assms by (simp add: auxiliary_point_def rhumbPoint_def num_defs Let_def)

lemma rhumbPoint_Fin:
  assumes "cos (lat / 180 * pi) \<noteq> 0"
  shows "rhumbPoint (Fin lat) (Fin lon) (Fin z) (Fin a)
     = \<lparr> geo_lat = Fin (lat + cos z * a / 60),
         geo_lon = Fin (lon + sin z * (a / cos (lat / 180 * pi)) / 60) \<rparr>"
  using assms by (simp add: rhumbPoint_def num_defs Let_def)

section \<open>Two crossing lines of position\<close>

lemma north_30_coeffs: "lop_coeffs north_30 = \<lparr> coeff_m = Fin 0, coeff_b = Fin (1 / 2) \<rparr>"
  by (simp add: lop_coeffs_def north_30_def rhumbPoint_def num_defs Let_def cos_60 sin_60)

lemma east_north_east_30_coeffs:
  "lop_coeffs east_north_east_30 = \<lparr> coeff_m = Fin (- sqrt 3), coeff_b = Fin 1 \<rparr>"
proof -
  have a: "pi / 3 + 2 * pi / 6 = 2 * pi / 3" by simp
  have b: "pi / 3 - 2 * pi / 6 = 0" by simp
  show ?thesis
    by (simp add: lop_coeffs_def east_north_east_30_def rhumbPoint_def num_defs Let_def a b
        cos_120 sin_120 cos_120' sin_120' real_div_sqrt)
qed

lemma index_pairs_2: "index_pairs (Suc (Suc 0)) = [(0, Suc 0)]"
  by (simp add: index_pairs_def upt_rec)

lemma sqrt3_bounds: "1 \<le> sqrt 3" "sqrt 3 < 2"
proof -
  show "1 \<le> sqrt 3" by (rule real_le_rsqrt) simp
  show "sqrt 3 < 2" by (rule real_less_lsqrt) simp_all
qed

lemma crossing_frame:
  "setCanvasDimensions window_1000_600 crossing_sheet
     = crossing_sheet\<lparr> g_sheetWidth := Fin 1000, g_sheetHeight := Fin 480,
                        g_latScale := Fin 100, g_lonScale := Fin 100 \<rparr>"
  by (simp add: setCanvasDimensions_def crossing_sheet_def two_marks_def window_1000_600_def
      Let_def num_defs)

lemma crossing_pair:
  "pair_intersection (setCanvasDimensions window_1000_600 crossing_sheet)
     \<lparr> coeff_m = Fin 0, coeff_b = Fin (1 / 2) \<rparr> \<lparr> coeff_m = Fin (- sqrt 3), coeff_b = Fin 1 \<rparr>
   = Some \<lparr> ix = Fin (50 / sqrt 3), iy = Fin (- 50), ilat = Fin (1 / 2),
            ilon = Fin (1 / (2 * sqrt 3)) \<rparr>"
proof -
  have "50 / sqrt 3 \<le> 50 / 1"
    by (rule divide_left_mono) (use sqrt3_bounds in simp_all)
  moreover have "0 \<le> 50 / sqrt 3" by simp
  ultimately have "\<not> 500 + 50 / sqrt 3 < 0" "\<not> 1000 < 500 + 50 / sqrt 3"
    by linarith+
  then show ?thesis
    unfolding crossing_frame
    using sqrt3_bounds
    by (simp add: pair_intersection_def project_def crossing_sheet_def two_marks_def Let_def
        num_defs)
qed

lemma crossing_sheet_intersections:
  "g_intersections (redraw window_1000_600 crossing_sheet)
     = [\<lparr> ix = Fin (50 / sqrt 3), iy = Fin (- 50), ilat = Fin (1 / 2),
          ilon = Fin (1 / (2 * sqrt 3)) \<rparr>]"
proof -
  have l: "g_lops crossing_sheet = [north_30, east_north_east_30]"
    by (simp add: crossing_sheet_def)
  show ?thesis
    unfolding redraw_intersections l
    by (simp add: index_pairs_2 List.map_filter_simps north_30_coeffs
        east_north_east_30_coeffs crossing_pair)
qed

section \<open>Boundaries of the parsers\<close>





lemma bearing_360:
  "updateZn (st\<lparr>el_Zn := set_value (str ''360'') (el_Zn st)\<rparr>)
     = st\<lparr> el_Zn := set_value (str ''360'' @ [degree_sign]) (el_Zn st),
            g_draftLOP := (g_draftLOP st)\<lparr>draft_Zn := Num (Fin (2 * pi))\<rparr> \<rparr>"
  by (simp add: updateZn_def set_value_def toLocaleString_def zero_pad_def decimal.simps
      group3.simps strip_zeros.simps parse_defs rx_defs ch_defs num_defs)


lemma Number_cases: "(\<exists>x. Number s = Fin x \<and> 0 \<le> x) \<or> Number s = NaN"
  by (auto simp: Number_def Let_def split: list.splits if_splits)

lemma Number_of_group_cases:
  "(\<exists>x. Number_of_group g = Fin x \<and> 0 \<le> x) \<or> Number_of_group g = NaN"
  using Number_cases by (cases g) (auto simp: Number_of_group_def)

lemma signed_magnitude_bounded:
  assumes le: "\<not> ngt (nadd d (ndiv m (Fin 60))) (Fin mx)"
    and d: "(\<exists>y. d = Fin y \<and> 0 \<le> y) \<or> d = NaN"
    and m: "(\<exists>y. m = Fin y \<and> 0 \<le> y) \<or> m = NaN"
    and v: "v = (if p then nadd d (ndiv m (Fin 60)) else nneg (nadd d (ndiv m (Fin 60))))"
  shows "(\<exists>x. v = Fin x \<and> \<bar>x\<bar> \<le> mx) \<or> v = NaN"
proof (cases "d = NaN \<or> m = NaN")
  case True
  then have "nadd d (ndiv m (Fin 60)) = NaN"
    by (cases d; cases m) (auto simp: nadd_def ndiv_def)
  then show ?thesis using v by (simp add: nneg_def)
next
  case False
  with d m obtain y z where yz: "d = Fin y" "0 \<le> y" "m = Fin z" "0 \<le> z" by auto
  then have M: "nadd d (ndiv m (Fin 60)) = Fin (y + z / 60)"
    by (simp add: nadd_def ndiv_def)
  have "y + z / 60 \<le> mx" using le unfolding M by (simp add: ngt_def nlt_def)
  moreover have "0 \<le> y + z / 60" using yz by simp
  ultimately show ?thesis using v unfolding M by (auto simp: nneg_def)
qed

text \<open>Whatever the text, a value the parser returns is of a magnitude at most the maximum
  of its field, or it is NaN.\<close>

lemma parsed_magnitude_bounded:
  assumes "parseDegreesDirection s maxDigits (Fin mx) pos neg withMinutes = Some v"
    and "0 \<le> mx"
  shows "(\<exists>x. v = Fin x \<and> \<bar>x\<bar> \<le> mx) \<or> v = NaN"
proof (cases "toUpperCase (trim s) = []")
  case True
  with assms show ?thesis by (auto simp: parseDegreesDirection_def)
next
  case False
  let ?r = "js_match (degreesRegex maxDigits pos neg withMinutes) (toUpperCase (trim s))"
  from assms(1) False obtain c where c: "?r = Some c"
    by (cases ?r) (auto simp: parseDegreesDirection_def Let_def)
  let ?min = "\<lambda>g. if withMinutes then Number_of_group (c g) else Fin 0"
  have mn: "\<And>g. (\<exists>y. ?min g = Fin y \<and> 0 \<le> y) \<or> ?min g = NaN"
    using Number_of_group_cases by auto
  show ?thesis
  proof (cases "c 2 \<noteq> None")
    case True
    let ?M = "nadd (Number_of_group (c 2)) (ndiv (?min 3) (Fin 60))"
    from assms(1) False c True have a: "\<not> ngt ?M (Fin mx)"
      and b: "v = (if c 5 = Some pos then ?M else nneg ?M)"
      by (auto simp: parseDegreesDirection_def Let_def split: if_splits)
    show ?thesis
      by (rule signed_magnitude_bounded[OF a Number_of_group_cases mn b])
  next
    case no2: False
    show ?thesis
    proof (cases "c 6 \<noteq> None")
      case True
      let ?M = "nadd (Number_of_group (c 7)) (ndiv (?min 8) (Fin 60))"
      from assms(1) False c no2 True have a: "\<not> ngt ?M (Fin mx)"
        and b: "v = (if c 6 \<noteq> Some [45] then ?M else nneg ?M)"
        by (auto simp: parseDegreesDirection_def Let_def split: if_splits)
      show ?thesis
        by (rule signed_magnitude_bounded[OF a Number_of_group_cases mn b])
    next
      case False
      with assms(1) \<open>toUpperCase (trim s) \<noteq> []\<close> c no2 show ?thesis
        by (auto simp: parseDegreesDirection_def Let_def)
    qed
  qed
qed

lemma parsed_latitude_bounded:
  "parseIntegerLatitude s = Some v \<Longrightarrow> (\<exists>x. v = Fin x \<and> \<bar>x\<bar> \<le> 89) \<or> v = NaN"
  unfolding parseIntegerLatitude_def by (rule parsed_magnitude_bounded) simp_all

lemma parsed_longitude_bounded:
  "parseIntegerLongitude s = Some v \<Longrightarrow> (\<exists>x. v = Fin x \<and> \<bar>x\<bar> \<le> 180) \<or> v = NaN"
  "parseLongitude s = Some v \<Longrightarrow> (\<exists>x. v = Fin x \<and> \<bar>x\<bar> \<le> 180) \<or> v = NaN"
  unfolding parseIntegerLongitude_def parseLongitude_def
  by (rule parsed_magnitude_bounded; simp)+



section \<open>Layout of the formatted texts\<close>

text \<open>
  Claim C3, as amended. For a latitude of magnitude at most 90 and a longitude of magnitude
  at most 180, the integer formatters give the rounded degrees on exactly two (latitude) or
  three (longitude) digits and the degree sign; the formatters with minutes give the whole
  degrees on two or three digits, the degree sign, a space, the minutes on two digits, a
  full stop, exactly one fraction digit and the closing quote. A positive value is followed
  by a space and the positive letter (N, E), a negative one by a space and the negative
  letter (S, W), and zero by nothing.
\<close>

theorem formatters_layout:
  assumes "\<bar>x\<bar> \<le> 90" and "\<bar>y\<bar> \<le> 180"
  shows "formatIntegerLatitude (Fin x)
           = two_digits (rounded_degrees x) @ [degree_sign] @ direction_letter x 78 83
       \<and> formatIntegerLongitude (Fin y)
           = three_digits (rounded_degrees y) @ [degree_sign] @ direction_letter y 69 87
       \<and> formatLatitude (Fin x)
           = two_digits (whole_degrees x) @ [degree_sign, space]
             @ two_digits (tenths_of_minutes x div 10) @ [46, 48 + tenths_of_minutes x mod 10]
             @ [right_quote] @ direction_letter x 78 83
       \<and> formatLongitude (Fin y)
           = three_digits (whole_degrees y) @ [degree_sign, space]
             @ two_digits (tenths_of_minutes y div 10) @ [46, 48 + tenths_of_minutes y mod 10]
             @ [right_quote] @ direction_letter y 69 87"
proof -
  have x1: "\<bar>x\<bar> < 199 / 2" and x2: "\<bar>x\<bar> < 100" using assms(1) by simp_all
  have y1: "\<bar>y\<bar> < 1999 / 2" and y2: "\<bar>y\<bar> < 1000" using assms(2) by simp_all
  show ?thesis
    using formatDegreesDirection_2[OF x1, of 78 83] formatDegreesDirection_3[OF y1, of 69 87]
      formatDegreesMinutesDirection_2[OF x2, of 78 83]
      formatDegreesMinutesDirection_3[OF y2, of 69 87]
    by (simp add: formatIntegerLatitude_def formatIntegerLongitude_def formatLatitude_def
        formatLongitude_def str_def)
qed

theorem formatters_layout_witness:
  "\<bar>3527 / 100 :: real\<bar> \<le> 90 \<and> \<bar>- 1453 / 10 :: real\<bar> \<le> 180
   \<and> formatIntegerLatitude (Fin (3527 / 100)) = str ''35'' @ [degree_sign] @ str '' N''
   \<and> formatIntegerLongitude (Fin (- 1453 / 10)) = str ''145'' @ [degree_sign] @ str '' W''
   \<and> formatLatitude (Fin (3527 / 100))
       = str ''35'' @ [degree_sign] @ str '' 16.2'' @ [right_quote] @ str '' N''
   \<and> formatLongitude (Fin (- 1453 / 10))
       = str ''145'' @ [degree_sign] @ str '' 18.0'' @ [right_quote] @ str '' W''"
  using formatters_layout[of "3527 / 100" "- 1453 / 10"]
  by (simp add: two_digits_def three_digits_def direction_letter_def whole_degrees_def
      rounded_degrees_def tenths_of_minutes_def ch_defs)

text \<open>Zero is not treated as positive: its text carries no direction letter.\<close>

theorem zero_has_no_letter:
  "formatIntegerLatitude (Fin 0) = str ''00'' @ [degree_sign]
   \<and> formatIntegerLongitude (Fin 0) = str ''000'' @ [degree_sign]
   \<and> formatLatitude (Fin 0) = str ''00'' @ [degree_sign] @ str '' 00.0'' @ [right_quote]
   \<and> formatLongitude (Fin 0) = str ''000'' @ [degree_sign] @ str '' 00.0'' @ [right_quote]"
  using formatDegreesDirection_2[of 0 78 83] formatDegreesDirection_3[of 0 69 87]
    formatDegreesMinutesDirection_2[of 0 78 83] formatDegreesMinutesDirection_3[of 0 69 87]
  by (simp add: formatIntegerLatitude_def formatIntegerLongitude_def formatLatitude_def
      formatLongitude_def two_digits_def three_digits_def direction_letter_def whole_degrees_def
      rounded_degrees_def tenths_of_minutes_def ch_defs)

section \<open>Minutes of a longitude\<close>

text \<open>
  Claim C10. The parser of a longitude with minutes does not ask for minutes below 60. A
  text with three digits of degrees and any two digits of minutes, 00 to 99, with or
  without a digit of tenths, or one digit of minutes, is accepted, and its value is the degrees plus a sixtieth of
  the minutes, unless that value is above 180; only then is the result \<open>null\<close>.
\<close>

theorem minutes_not_capped:
  assumes "D < 1000" and "M < 100" and "T < 10" and "U < 10"
  shows "parseLongitude (three_digits D @ [degree_sign, space] @ two_digits M
                         @ [46, 48 + T, right_quote, space, 69])
           = (if 180 < real D + (real M + real T / 10) / 60 then None
              else Some (Fin (real D + (real M + real T / 10) / 60)))
       \<and> parseLongitude (three_digits D @ [degree_sign, space] @ two_digits M
                         @ [right_quote, space, 69])
           = (if 180 < real D + real M / 60 then None
              else Some (Fin (real D + real M / 60)))
       \<and> parseLongitude (three_digits D @ [degree_sign, space, 48 + U, right_quote, space, 69])
           = (if 180 < real D + real U / 60 then None
              else Some (Fin (real D + real U / 60)))"
proof -
  have d: "D div 100 < 10" "D div 10 mod 10 < 10" "D mod 10 < 10"
    using assms(1) by simp_all
  have m: "M div 10 < 10" "M mod 10 < 10"
    using assms(2) by simp_all
  show ?thesis
    using parseLongitude_canonical_E[OF d m assms(3)] parseLongitude_whole_minutes_E[OF d m]
      parseLongitude_one_digit_minutes_E[OF d assms(4)]
    by (simp add: three_digits_def two_digits_def degree_sign_def space_def right_quote_def
        digits_3 digits_2)
qed

theorem minutes_not_capped_witness:
  "(100::nat) < 1000 \<and> (99::nat) < 100 \<and> (5::nat) < 10 \<and> (9::nat) < 10
   \<and> parseLongitude (str ''100'' @ [degree_sign] @ str '' 99.5'' @ [right_quote] @ str '' E'')
       = Some (Fin (100 + 995 / 600))
   \<and> parseLongitude (str ''100'' @ [degree_sign] @ str '' 99'' @ [right_quote] @ str '' E'')
       = Some (Fin (100 + 99 / 60))
   \<and> parseLongitude (str ''100'' @ [degree_sign] @ str '' 9'' @ [right_quote] @ str '' E'')
       = Some (Fin (100 + 9 / 60))"
  using minutes_not_capped[of 100 99 5 9]
  by (simp add: three_digits_def two_digits_def ch_defs)

section \<open>The coordinate readout\<close>

lemma snap_step_within:
  "snap_step x y s p = (if within_radius x y p then Some p else s)"
  by (simp add: snap_step_def within_radius_def distance_sq_def Let_def)

lemma foldl_snap_append:
  "foldl (snap_step x y) s ps
     = (case filter (within_radius x y) ps of [] \<Rightarrow> s | q # qs \<Rightarrow> Some (last (q # qs)))"
proof (induction ps arbitrary: s)
  case Nil
  then show ?case by simp
next
  case (Cons p ps)
  have "foldl (snap_step x y) s (p # ps) = foldl (snap_step x y) (snap_step x y s p) ps"
    by simp
  also have "\<dots> = (case filter (within_radius x y) ps of
                     [] \<Rightarrow> snap_step x y s p | q # qs \<Rightarrow> Some (last (q # qs)))"
    by (rule Cons.IH)
  finally have F: "foldl (snap_step x y) s (p # ps)
      = (case filter (within_radius x y) ps of
           [] \<Rightarrow> snap_step x y s p | q # qs \<Rightarrow> Some (last (q # qs)))" .
  show ?case
  proof (cases "within_radius x y p")
    case True
    then have "snap_step x y s p = Some p" by (simp only: snap_step_within if_True)
    with True show ?thesis unfolding F by (simp split: list.splits)
  next
    case False
    then have "snap_step x y s p = s" by (simp only: snap_step_within if_False)
    with False show ?thesis unfolding F by (simp split: list.splits)
  qed
qed

lemma snapped_is_last_within:
  "foldl (snap_step x y) None ps
     = (if filter (within_radius x y) ps = [] then None
        else Some (last (filter (within_radius x y) ps)))"
  by (simp add: foldl_snap_append split: list.splits)

lemma readout_without_snap:
  assumes "filter (within_radius
              (nsub (nsub event_x (sheet_offsetLeft e)) (ndiv (g_sheetWidth st) (Fin 2)))
              (nsub (nsub event_y (sheet_offsetTop e)) (ndiv (g_sheetHeight st) (Fin 2))))
            (g_intersections st) = []"
  shows "updateCoordsDisplay e event_x event_y st
     = st\<lparr> coords_snapped := False,
            coords_text :=
              formatLatitude
                (nadd (ndiv (nneg (nsub (nsub event_y (sheet_offsetTop e))
                                        (ndiv (g_sheetHeight st) (Fin 2))))
                            (g_latScale st)) (g_ctrLat st))
              @ [160, 160]
              @ formatLongitude
                (nadd (ndiv (nsub (nsub event_x (sheet_offsetLeft e))
                                  (ndiv (g_sheetWidth st) (Fin 2)))
                            (g_lonScale st)) (g_ctrLon st)) \<rparr>"
  unfolding updateCoordsDisplay_def Let_def snapped_is_last_within assms by simp

text \<open>
  Claim C2 fails on the code. The loop of \<open>updateCoordsDisplay\<close> never lowers
  \<open>minDistanceSqrd\<close>, so it keeps the last intersection within ten pixels, not the
  nearest one. On a sheet with intersections one pixel and five pixels from its centre, the
  nearest to a cursor at the centre is the first, at longitude 0 degrees 0.6 minutes, and
  the readout shows the second, at 0 degrees 3.0 minutes.
\<close>

theorem readout_snaps_to_last:
  "nearest (Fin 0) (Fin 0) (filter (within_radius (Fin 0) (Fin 0)) (g_intersections two_marks))
     = Some \<lparr> ix = Fin 1, iy = Fin 0, ilat = Fin 0, ilon = Fin (1 / 100) \<rparr>
   \<and> coords_text (updateCoordsDisplay window_1000_600 (Fin 500) (Fin 240) two_marks)
     = str ''00'' @ [degree_sign] @ str '' 00.0'' @ [right_quote] @ [160, 160]
       @ str ''000'' @ [degree_sign] @ str '' 03.0'' @ [right_quote] @ str '' E''"
proof -
  have a: "nearest (Fin 0) (Fin 0) (filter (within_radius (Fin 0) (Fin 0)) (g_intersections two_marks))
     = Some \<lparr> ix = Fin 1, iy = Fin 0, ilat = Fin 0, ilon = Fin (1 / 100) \<rparr>"
    by (simp add: two_marks_def within_radius_def distance_sq_def num_defs)
  have b: "foldl (snap_step (Fin 0) (Fin 0)) None (g_intersections two_marks)
     = Some \<lparr> ix = Fin 5, iy = Fin 0, ilat = Fin 0, ilon = Fin (5 / 100) \<rparr>"
    by (simp add: two_marks_def snap_step_def num_defs)
  have c: "formatLatitude (Fin 0) = str ''00'' @ [degree_sign] @ str '' 00.0'' @ [right_quote]"
    using formatDegreesMinutesDirection_2[of 0 78 83]
    by (simp add: formatLatitude_def two_digits_def direction_letter_def whole_degrees_def
        tenths_of_minutes_def ch_defs)
  have d: "formatLongitude (Fin (5 / 100))
     = str ''000'' @ [degree_sign] @ str '' 03.0'' @ [right_quote] @ str '' E''"
    using formatDegreesMinutesDirection_3[of "5 / 100" 69 87]
    by (simp add: formatLongitude_def three_digits_def two_digits_def direction_letter_def
        whole_degrees_def tenths_of_minutes_def ch_defs)
  have x0: "nsub (nsub (Fin 500) (sheet_offsetLeft window_1000_600))
              (ndiv (g_sheetWidth two_marks) (Fin 2)) = Fin 0"
    by (simp add: two_marks_def window_1000_600_def num_defs)
  have y0: "nsub (nsub (Fin 240) (sheet_offsetTop window_1000_600))
              (ndiv (g_sheetHeight two_marks) (Fin 2)) = Fin 0"
    by (simp add: two_marks_def window_1000_600_def num_defs)
  have e: "coords_text (updateCoordsDisplay window_1000_600 (Fin 500) (Fin 240) two_marks)
     = formatLatitude (Fin 0) @ [160, 160] @ formatLongitude (Fin (5 / 100))"
    unfolding updateCoordsDisplay_def Let_def x0 y0 b
    by (simp add: two_marks_def num_defs)
  show ?thesis using a e unfolding c d by simp
qed

section \<open>The sheet frame\<close>

lemma redraw_frame_consistent: "frame_consistent (redraw e st)"
  by (simp add: frame_consistent_def redraw_def setCanvasDimensions_def Let_def)

lemma updateCenterLatitude_frame:
  "frame_consistent st \<Longrightarrow> frame_consistent (updateCenterLatitude e st)"
  by (cases "parseIntegerLatitude (input_value (el_ctrLat st))")
     (simp_all add: updateCenterLatitude_def redraw_frame_consistent,
      simp add: frame_consistent_def)

lemma updateCenterLongitude_frame:
  "frame_consistent st \<Longrightarrow> frame_consistent (updateCenterLongitude e st)"
  by (cases "parseIntegerLongitude (input_value (el_ctrLon st))")
     (simp_all add: updateCenterLongitude_def redraw_frame_consistent,
      simp add: frame_consistent_def)

lemma updateA_frame [simp]:
  "g_lonScale (updateA st) = g_lonScale st" "g_latScale (updateA st) = g_latScale st"
  "g_ctrLat (updateA st) = g_ctrLat st"
  by (simp_all add: updateA_def Let_def split: option.splits)

lemma updateZn_frame [simp]:
  "g_lonScale (updateZn st) = g_lonScale st" "g_latScale (updateZn st) = g_latScale st"
  "g_ctrLat (updateZn st) = g_ctrLat st"
  by (simp_all add: updateZn_def Let_def split: option.splits)

lemma updateALat_frame [simp]:
  "g_lonScale (updateALat st) = g_lonScale st" "g_latScale (updateALat st) = g_latScale st"
  "g_ctrLat (updateALat st) = g_ctrLat st"
  by (simp_all add: updateALat_def split: option.splits)

lemma updateALon_frame [simp]:
  "g_lonScale (updateALon st) = g_lonScale st" "g_latScale (updateALon st) = g_latScale st"
  "g_ctrLat (updateALon st) = g_ctrLat st"
  by (simp_all add: updateALon_def split: option.splits)

lemma handle_frame:
  "frame_consistent st \<Longrightarrow> frame_consistent (handle e ev st)"
proof (cases ev)
  case (Change_ctrLat s)
  assume "frame_consistent st"
  then have "frame_consistent (st\<lparr>el_ctrLat := set_value s (el_ctrLat st)\<rparr>)"
    by (simp add: frame_consistent_def)
  then show ?thesis unfolding Change_ctrLat handle.simps by (rule updateCenterLatitude_frame)
next
  case (Change_ctrLon s)
  assume "frame_consistent st"
  then have "frame_consistent (st\<lparr>el_ctrLon := set_value s (el_ctrLon st)\<rparr>)"
    by (simp add: frame_consistent_def)
  then show ?thesis unfolding Change_ctrLon handle.simps by (rule updateCenterLongitude_frame)
next
  case Click_addLOPBtn
  assume "frame_consistent st"
  then show ?thesis 
    by (simp add: Click_addLOPBtn addLOP_def Let_def redraw_frame_consistent)
next
  case Resize
  then show ?thesis by (simp add: redraw_frame_consistent)
qed (simp_all add: frame_consistent_def updateAddLOPButton_def updateCoordsDisplay_def Let_def
       clearCoordsDisplay_def)

text \<open>
  Claim C9. In every state of a session, that is when \<open>window.onload\<close> has run and
  after every event handler (a resize, an edit of the centre, of the draft, a click, a
  move of the pointer), the scale of the longitudes is the scale of the latitudes times the
  cosine of the central latitude: \<open>setCanvasDimensions\<close> is the only place that assigns
  either scale, it assigns both, and every handler that changes the central latitude goes
  through it.
\<close>

theorem lonScale_always_derived:
  "reachable st \<Longrightarrow> frame_consistent st"
proof (induction rule: reachable.induct)
  case (start e ctrLat ctrLon a aDir Zn aLat aLon disabled coords snapped)
  show ?case unfolding onload_def by (rule redraw_frame_consistent)
next
  case (step st e ev)
  then show ?case by (simp add: handle_frame)
qed


lemma latitude_60N: "parseIntegerLatitude (str ''60 N'') = Some (Fin 60)"
  by (simp add: parse_defs rx_defs ch_defs num_defs)

lemma redraw_frame_fields:
  "g_ctrLat (redraw e st) = g_ctrLat st"
  "g_latScale (redraw e st)
     = ndiv (nsub (nsub (nsub (innerHeight e) (header_clientHeight e)) (footer_clientHeight e))
                  (Fin 80)) (Fin 4)"
  by (simp_all add: redraw_def setCanvasDimensions_def Let_def)

theorem lonScale_always_derived_witness:
  "reachable (handle window_1000_600 (Change_ctrLat (str ''60 N'')) 
               (onload window_1000_600 blank_page))
   \<and> g_ctrLat (handle window_1000_600 (Change_ctrLat (str ''60 N'')) 
               (onload window_1000_600 blank_page)) = Fin 60
   \<and> g_latScale (handle window_1000_600 (Change_ctrLat (str ''60 N'')) 
               (onload window_1000_600 blank_page)) = Fin 100
   \<and> g_lonScale (handle window_1000_600 (Change_ctrLat (str ''60 N'')) 
               (onload window_1000_600 blank_page)) = Fin 50"
proof -
  let ?S = "handle window_1000_600 (Change_ctrLat (str ''60 N'')) 
               (onload window_1000_600 blank_page)"
  have r: "reachable ?S"
    unfolding blank_page_def by (intro reachable.step reachable.start)
  have c: "g_ctrLat ?S = Fin 60"
    by (simp add: updateCenterLatitude_def set_value_def latitude_60N redraw_frame_fields)
  have l: "g_latScale ?S = Fin 100"
    by (simp add: updateCenterLatitude_def set_value_def latitude_60N redraw_frame_fields
        window_1000_600_def num_defs)
  have "cos (pi / 3) = 1 / 2" by (rule cos_60)
  then have "g_lonScale ?S = Fin 50"
    using lonScale_always_derived[OF r] unfolding frame_consistent_def c l
    by (simp add: num_defs)
  with r c l show ?thesis by blast
qed

section \<open>Failures of the parsers in the handlers\<close>

lemma updateCenterLatitude_failure:
  "parseIntegerLatitude (input_value (el_ctrLat st)) = None \<Longrightarrow>
   updateCenterLatitude e st = st\<lparr>el_ctrLat := flagInputError (el_ctrLat st)\<rparr>"
  by (simp add: updateCenterLatitude_def)

lemma updateCenterLongitude_failure:
  "parseIntegerLongitude (input_value (el_ctrLon st)) = None \<Longrightarrow>
   updateCenterLongitude e st = st\<lparr>el_ctrLon := flagInputError (el_ctrLon st)\<rparr>"
  by (simp add: updateCenterLongitude_def)

lemma updateA_failure:
  "a_fails (input_value (el_a st)) \<Longrightarrow>
   updateA st = st\<lparr>el_a := flagInputError (el_a st),
                    g_draftLOP := (g_draftLOP st)\<lparr>draft_a := Undefined\<rparr>\<rparr>"
  by (simp add: updateA_def a_fails_def Let_def)

lemma updateZn_failure:
  "Zn_fails (input_value (el_Zn st)) \<Longrightarrow>
   updateZn st = st\<lparr>el_Zn := flagInputError (el_Zn st),
                     g_draftLOP := (g_draftLOP st)\<lparr>draft_Zn := Undefined\<rparr>\<rparr>"
  by (auto simp: updateZn_def Zn_fails_def Let_def split: option.splits)

lemma updateALat_failure:
  "parseIntegerLatitude (input_value (el_aLat st)) = None \<Longrightarrow>
   updateALat st = st\<lparr>el_aLat := flagInputError (el_aLat st),
                       g_draftLOP := (g_draftLOP st)\<lparr>draft_aLat := Undefined\<rparr>\<rparr>"
  by (simp add: updateALat_def)

lemma updateALon_failure:
  "parseIntegerLongitude (input_value (el_aLon st)) = None \<Longrightarrow>
   parseLongitude (input_value (el_aLon st)) = None \<Longrightarrow>
   updateALon st = st\<lparr>el_aLon := flagInputError (el_aLon st),
                       g_draftLOP := (g_draftLOP st)\<lparr>draft_aLon := Undefined\<rparr>\<rparr>"
  by (simp add: updateALon_def)

text \<open>
  Claim C8. When the text of a field fails to parse, the function that updates the field
  leaves the state as it was but for the error marker of that field and, for a field of the
  draft, the draft entry of that field, which becomes \<open>undefined\<close>: the central
  latitude and longitude, the lines of position, the other entries of the draft and the
  text and marker of every other field are the same before and after.
\<close>

theorem parse_failure_is_local:
  "(parseIntegerLatitude (input_value (el_ctrLat st)) = None \<longrightarrow>
      updateCenterLatitude e st = st\<lparr>el_ctrLat := flagInputError (el_ctrLat st)\<rparr>)
   \<and> (parseIntegerLongitude (input_value (el_ctrLon st)) = None \<longrightarrow>
      updateCenterLongitude e st = st\<lparr>el_ctrLon := flagInputError (el_ctrLon st)\<rparr>)
   \<and> (a_fails (input_value (el_a st)) \<longrightarrow>
      updateA st = st\<lparr>el_a := flagInputError (el_a st),
                       g_draftLOP := (g_draftLOP st)\<lparr>draft_a := Undefined\<rparr>\<rparr>)
   \<and> (Zn_fails (input_value (el_Zn st)) \<longrightarrow>
      updateZn st = st\<lparr>el_Zn := flagInputError (el_Zn st),
                        g_draftLOP := (g_draftLOP st)\<lparr>draft_Zn := Undefined\<rparr>\<rparr>)
   \<and> (parseIntegerLatitude (input_value (el_aLat st)) = None \<longrightarrow>
      updateALat st = st\<lparr>el_aLat := flagInputError (el_aLat st),
                          g_draftLOP := (g_draftLOP st)\<lparr>draft_aLat := Undefined\<rparr>\<rparr>)
   \<and> (parseIntegerLongitude (input_value (el_aLon st)) = None
        \<and> parseLongitude (input_value (el_aLon st)) = None \<longrightarrow>
      updateALon st = st\<lparr>el_aLon := flagInputError (el_aLon st),
                          g_draftLOP := (g_draftLOP st)\<lparr>draft_aLon := Undefined\<rparr>\<rparr>)"
  using updateCenterLatitude_failure updateCenterLongitude_failure updateA_failure
    updateZn_failure updateALat_failure updateALon_failure
  by blast

lemma bad_texts:
  "parseIntegerLatitude (str ''95 N'') = None"
  "parseIntegerLongitude (str ''200 E'') = None"
  "a_fails (str ''12a'')"
  "Zn_fails (str ''400'')"
  "parseIntegerLatitude (str ''N 35'') = None"
  "parseIntegerLongitude (str ''180 30 W'') = None"
  "parseLongitude (str ''180 30 W'') = None"
  by (simp_all add: a_fails_def Zn_fails_def parse_defs rx_defs ch_defs num_defs)

theorem parse_failure_is_local_witness:
  "parseIntegerLatitude (input_value (el_ctrLat bad_page)) = None
   \<and> updateCenterLatitude window_1000_600 bad_page
       = bad_page\<lparr>el_ctrLat := \<lparr>input_value = str ''95 N'', input_error = True\<rparr>\<rparr>
   \<and> parseIntegerLongitude (input_value (el_ctrLon bad_page)) = None
   \<and> updateCenterLongitude window_1000_600 bad_page
       = bad_page\<lparr>el_ctrLon := \<lparr>input_value = str ''200 E'', input_error = True\<rparr>\<rparr>
   \<and> a_fails (input_value (el_a bad_page))
   \<and> updateA bad_page
       = bad_page\<lparr>el_a := \<lparr>input_value = str ''12a'', input_error = True\<rparr>,
                  g_draftLOP := (g_draftLOP bad_page)\<lparr>draft_a := Undefined\<rparr>\<rparr>
   \<and> Zn_fails (input_value (el_Zn bad_page))
   \<and> updateZn bad_page
       = bad_page\<lparr>el_Zn := \<lparr>input_value = str ''400'', input_error = True\<rparr>,
                  g_draftLOP := (g_draftLOP bad_page)\<lparr>draft_Zn := Undefined\<rparr>\<rparr>
   \<and> parseIntegerLatitude (input_value (el_aLat bad_page)) = None
   \<and> updateALat bad_page
       = bad_page\<lparr>el_aLat := \<lparr>input_value = str ''N 35'', input_error = True\<rparr>,
                  g_draftLOP := (g_draftLOP bad_page)\<lparr>draft_aLat := Undefined\<rparr>\<rparr>
   \<and> parseIntegerLongitude (input_value (el_aLon bad_page)) = None
   \<and> parseLongitude (input_value (el_aLon bad_page)) = None
   \<and> updateALon bad_page
       = bad_page\<lparr>el_aLon := \<lparr>input_value = str ''180 30 W'', input_error = True\<rparr>,
                  g_draftLOP := (g_draftLOP bad_page)\<lparr>draft_aLon := Undefined\<rparr>\<rparr>"
proof -
  have f: "el_ctrLat bad_page = \<lparr>input_value = str ''95 N'', input_error = False\<rparr>"
    "el_ctrLon bad_page = \<lparr>input_value = str ''200 E'', input_error = False\<rparr>"
    "el_a bad_page = \<lparr>input_value = str ''12a'', input_error = False\<rparr>"
    "el_Zn bad_page = \<lparr>input_value = str ''400'', input_error = False\<rparr>"
    "el_aLat bad_page = \<lparr>input_value = str ''N 35'', input_error = False\<rparr>"
    "el_aLon bad_page = \<lparr>input_value = str ''180 30 W'', input_error = False\<rparr>"
    by (simp_all add: bad_page_def loaded_def)
  show ?thesis
    using parse_failure_is_local[of bad_page window_1000_600] bad_texts
    unfolding f by (simp add: flagInputError_def)
qed


text \<open>The change handler of a field of the draft then runs \<open>updateAddLOPButton\<close>,
  which finds the entry \<open>undefined\<close> and disables the Add button.\<close>

lemma failed_change_disables_add:
  "a_fails s \<Longrightarrow>
   handle e (Change_a s) st
     = st\<lparr>el_a := flagInputError (set_value s (el_a st)),
          g_draftLOP := (g_draftLOP st)\<lparr>draft_a := Undefined\<rparr>,
          addLOPBtn_disabled := True\<rparr>"
  "Zn_fails s \<Longrightarrow>
   handle e (Change_Zn s) st
     = st\<lparr>el_Zn := flagInputError (set_value s (el_Zn st)),
          g_draftLOP := (g_draftLOP st)\<lparr>draft_Zn := Undefined\<rparr>,
          addLOPBtn_disabled := True\<rparr>"
  "parseIntegerLatitude s = None \<Longrightarrow>
   handle e (Change_aLat s) st
     = st\<lparr>el_aLat := flagInputError (set_value s (el_aLat st)),
          g_draftLOP := (g_draftLOP st)\<lparr>draft_aLat := Undefined\<rparr>,
          addLOPBtn_disabled := True\<rparr>"
  "parseIntegerLongitude s = None \<Longrightarrow> parseLongitude s = None \<Longrightarrow>
   handle e (Change_aLon s) st
     = st\<lparr>el_aLon := flagInputError (set_value s (el_aLon st)),
          g_draftLOP := (g_draftLOP st)\<lparr>draft_aLon := Undefined\<rparr>,
          addLOPBtn_disabled := True\<rparr>"
  by (simp_all add: updateA_failure updateZn_failure updateALat_failure updateALon_failure
      set_value_def updateAddLOPButton_def unusable_def)

section \<open>The azimuth of a line of position\<close>

subsection \<open>What a match captures\<close>

lemma rep_suffixes_prefix:
  "r \<in> set (rep_suffixes p lo hi s) \<Longrightarrow>
   \<exists>ds. s = ds @ r \<and> list_all p ds \<and> lo \<le> length ds \<and> length ds \<le> hi"
proof (induction s arbitrary: lo hi)
  case Nil
  then show ?case by (simp split: if_splits)
next
  case (Cons x xs)
  from Cons.prems consider
      (eat) "hi \<noteq> 0" "p x" "r \<in> set (rep_suffixes p (lo - 1) (hi - 1) xs)"
    | (stop) "lo = 0" "r = x # xs"
    by (auto split: if_splits)
  then show ?case
  proof cases
    case eat
    from Cons.IH[OF eat(3)] obtain ds where
      ds: "xs = ds @ r" "list_all p ds" "lo - 1 \<le> length ds" "length ds \<le> hi - 1"
      by blast
    have "x # xs = (x # ds) @ r" using ds(1) by simp
    moreover have "list_all p (x # ds)" using eat(2) ds(2) by simp
    moreover have "lo \<le> length (x # ds)" using ds(3) by simp
    moreover have "length (x # ds) \<le> hi" using ds(4) eat(1) by simp
    ultimately show ?thesis by blast
  next
    case stop
    then show ?thesis by simp
  qed
qed

lemma star_keeps_captures: "(c', r') \<in> set (star p (c, s)) \<Longrightarrow> c' = c"
  by (auto simp: star_def)

lemma cls_keeps_captures: "(c', r') \<in> set (cls p (c, s)) \<Longrightarrow> c' = c"
  by (auto simp: cls_def split: list.splits if_splits)

lemma js_match_Some:
  "js_match m s = Some c \<Longrightarrow> (c, []) \<in> set (m (Map.empty, s))"
proof -
  assume a: "js_match m s = Some c"
  then obtain r rest where
    f: "filter (\<lambda>(c, r). r = []) (m (Map.empty, s)) = (c, r) # rest"
    by (auto simp: js_match_def split: list.splits)
  then have "(c, r) \<in> set (filter (\<lambda>(c, r). r = []) (m (Map.empty, s)))"
    by simp
  then show ?thesis by auto
qed

lemma seq_elim:
  "x \<in> set (seq m1 m2 st) \<Longrightarrow> \<exists>y\<in>set (m1 st). x \<in> set (m2 y)"
  by (auto simp: seq_def)

lemma ZnRegex_captures:
  assumes "(c, r) \<in> set (ZnRegex (Map.empty, s))"
  shows "\<exists>ds. c 1 = Some ds \<and> ds \<noteq> [] \<and> list_all is_digit ds"
proof -
  from seq_elim[OF assms[unfolded ZnRegex_def]] obtain c1 r1 where
    g: "(c1, r1) \<in> set (grp 1 (rep is_digit 1 3) (Map.empty, s))"
    and t: "(c, r) \<in> set (seq (star (\<lambda>c. c = space)) (opt (cls (\<lambda>c. c = degree_sign))) (c1, r1))"
    by fastforce
  from seq_elim[OF t] obtain c2 r2 where
    s2: "(c2, r2) \<in> set (star (\<lambda>c. c = space) (c1, r1))"
    and o: "(c, r) \<in> set (opt (cls (\<lambda>c. c = degree_sign)) (c2, r2))"
    by fastforce
  have "c2 = c1" using s2 by (rule star_keeps_captures)
  moreover have "c = c2" using o cls_keeps_captures[of c r _ c2 r2] by (auto simp: opt_def)
  ultimately have cc: "c = c1" by simp
  from g obtain r0 where
    r0: "r0 \<in> set (rep_suffixes is_digit 1 3 s)"
    and c1: "c1 = Map.empty(1 \<mapsto> take (length s - length r0) s)"
    by (auto simp: grp_def rep_def)
  from rep_suffixes_prefix[OF r0] obtain ds where
    ds: "s = ds @ r0" "list_all is_digit ds" "1 \<le> length ds"
    by blast
  have "take (length s - length r0) s = ds" using ds(1) by simp
  then have "c 1 = Some ds" using cc c1 by simp
  moreover have "ds \<noteq> []" using ds(3) by auto
  ultimately show ?thesis using ds(2) by blast
qed

lemma Number_digits:
  assumes "list_all is_digit ds"
  shows "Number ds = Fin (real (digits_val ds))"
proof -
  have t: "takeWhile is_digit ds = ds" and d: "dropWhile is_digit ds = []"
    using assms by (simp_all add: list_all_iff)
  show ?thesis unfolding Number_def Let_def t d by simp
qed

subsection \<open>The azimuth of the draft\<close>

lemma radians_ok:
  assumes "\<not> ngt (Fin v) (Fin 360)" and "0 \<le> v"
  shows "azimuth_ok (radians (Fin v))"
proof -
  have v: "v \<le> 360" using assms(1) by (simp add: ngt_def nlt_def)
  have r: "radians (Fin v) = Fin (v / 180 * pi)"
    by (simp add: radians_def ndiv_def nmul_def Math_PI_def)
  have "0 \<le> v / 180 * pi" using assms(2) by simp
  moreover have "v / 180 * pi \<le> 2 * pi" using v by simp
  ultimately show ?thesis unfolding r by (simp add: azimuth_ok_def)
qed

lemma updateZn_azimuth:
  "draft_Zn (g_draftLOP (updateZn st)) = Undefined
   \<or> (\<exists>z. draft_Zn (g_draftLOP (updateZn st)) = Num z \<and> azimuth_ok z)"
proof (cases "trim (input_value (el_Zn st)) = []")
  case True
  then show ?thesis by (simp add: updateZn_def azimuth_ok_def)
next
  case False
  show ?thesis
  proof (cases "js_match ZnRegex (trim (input_value (el_Zn st)))")
    case None
    with False show ?thesis by (simp add: updateZn_def)
  next
    case (Some m)
    from ZnRegex_captures[OF js_match_Some[OF Some]] obtain ds where
      ds: "m 1 = Some ds" "list_all is_digit ds" by blast
    have n: "Number_of_group (m 1) = Fin (real (digits_val ds))"
      using ds by (simp add: Number_of_group_def Number_digits)
    show ?thesis
    proof (cases "ngt (Fin (real (digits_val ds))) (Fin 360)")
      case True
      with False Some n show ?thesis by (simp add: updateZn_def Let_def)
    next
      case no: False
      have "azimuth_ok (radians (Fin (real (digits_val ds))))"
        using no by (rule radians_ok) simp
      with False Some n no show ?thesis by (simp add: updateZn_def Let_def)
    qed
  qed
qed


subsection \<open>What the handlers leave alone\<close>

lemma redraw_keeps [simp]:
  "g_lops (redraw e st) = g_lops st"
  "g_draftLOP (redraw e st) = g_draftLOP st"
  "addLOPBtn_disabled (redraw e st) = addLOPBtn_disabled st"
  by (simp_all add: redraw_def setCanvasDimensions_def Let_def)

lemma updateCenterLatitude_keeps [simp]:
  "g_lops (updateCenterLatitude e st) = g_lops st"
  "g_draftLOP (updateCenterLatitude e st) = g_draftLOP st"
  "addLOPBtn_disabled (updateCenterLatitude e st) = addLOPBtn_disabled st"
  by (simp_all add: updateCenterLatitude_def split: option.splits)

lemma updateCenterLongitude_keeps [simp]:
  "g_lops (updateCenterLongitude e st) = g_lops st"
  "g_draftLOP (updateCenterLongitude e st) = g_draftLOP st"
  "addLOPBtn_disabled (updateCenterLongitude e st) = addLOPBtn_disabled st"
  by (simp_all add: updateCenterLongitude_def split: option.splits)

lemma updateA_keeps [simp]:
  "g_lops (updateA st) = g_lops st"
  "draft_Zn (g_draftLOP (updateA st)) = draft_Zn (g_draftLOP st)"
  "addLOPBtn_disabled (updateA st) = addLOPBtn_disabled st"
  by (simp_all add: updateA_def Let_def split: option.splits)

lemma updateALat_keeps [simp]:
  "g_lops (updateALat st) = g_lops st"
  "draft_Zn (g_draftLOP (updateALat st)) = draft_Zn (g_draftLOP st)"
  "addLOPBtn_disabled (updateALat st) = addLOPBtn_disabled st"
  by (simp_all add: updateALat_def split: option.splits)

lemma updateALon_keeps [simp]:
  "g_lops (updateALon st) = g_lops st"
  "draft_Zn (g_draftLOP (updateALon st)) = draft_Zn (g_draftLOP st)"
  "addLOPBtn_disabled (updateALon st) = addLOPBtn_disabled st"
  by (simp_all add: updateALon_def split: option.splits)

lemma updateZn_keeps [simp]:
  "g_lops (updateZn st) = g_lops st"
  "addLOPBtn_disabled (updateZn st) = addLOPBtn_disabled st"
  by (simp_all add: updateZn_def Let_def split: option.splits)

lemma updateAddLOPButton_keeps [simp]:
  "g_lops (updateAddLOPButton st) = g_lops st"
  "g_draftLOP (updateAddLOPButton st) = g_draftLOP st"
  by (simp_all add: updateAddLOPButton_def)

lemma updateAddLOPButton_guards:
  "addLOPBtn_disabled (updateAddLOPButton st) \<or> draft_Zn (g_draftLOP st) \<noteq> Undefined"
  by (auto simp: updateAddLOPButton_def unusable_def)

subsection \<open>The azimuths of a session\<close>

lemma azimuths_ok_draft_edit:
  assumes "azimuths_ok st"
    and "g_lops st' = g_lops st"
    and "draft_Zn (g_draftLOP st') = draft_Zn (g_draftLOP st)"
  shows "azimuths_ok (updateAddLOPButton st')"
  using assms updateAddLOPButton_guards[of st']
  by (auto simp: azimuths_ok_def)

lemma azimuths_ok_updateZn:
  assumes "azimuths_ok st" and "g_lops st' = g_lops st"
  shows "azimuths_ok (updateAddLOPButton (updateZn st'))"
  using assms updateAddLOPButton_guards[of "updateZn st'"] updateZn_azimuth[of st']
  by (auto simp: azimuths_ok_def)

lemma azimuths_ok_same:
  assumes "azimuths_ok st"
    and "g_lops st' = g_lops st"
    and "draft_Zn (g_draftLOP st') = draft_Zn (g_draftLOP st)"
    and "addLOPBtn_disabled st' = addLOPBtn_disabled st"
  shows "azimuths_ok st'"
  using assms by (simp add: azimuths_ok_def)

lemma azimuths_ok_addLOP:
  assumes "azimuths_ok st" and "\<not> addLOPBtn_disabled st"
  shows "azimuths_ok (addLOP e st)"
proof -
  from assms obtain z where z: "draft_Zn (g_draftLOP st) = Num z" "azimuth_ok z"
    by (auto simp: azimuths_ok_def split: jsval.splits)
  then show ?thesis
    using assms(1) by (simp add: azimuths_ok_def addLOP_def Let_def to_num_def)
qed

lemma azimuths_ok_handle:
  assumes "azimuths_ok st"
  shows "azimuths_ok (handle e ev st)"
proof (cases ev)
  case (Change_a s)
  show ?thesis unfolding Change_a handle.simps
    by (rule azimuths_ok_draft_edit[OF assms]) simp_all
next
  case (Change_aDir s)
  show ?thesis unfolding Change_aDir handle.simps
    by (rule azimuths_ok_draft_edit[OF assms]) simp_all
next
  case (Change_Zn s)
  show ?thesis unfolding Change_Zn handle.simps
    by (rule azimuths_ok_updateZn[OF assms]) simp
next
  case (Change_aLat s)
  show ?thesis unfolding Change_aLat handle.simps
    by (rule azimuths_ok_draft_edit[OF assms]) simp_all
next
  case (Change_aLon s)
  show ?thesis unfolding Change_aLon handle.simps
    by (rule azimuths_ok_draft_edit[OF assms]) simp_all
next
  case Click_addLOPBtn
  show ?thesis using assms by (simp add: Click_addLOPBtn azimuths_ok_addLOP)
qed (rule azimuths_ok_same[OF assms];
     simp add: updateCoordsDisplay_def clearCoordsDisplay_def Let_def)+

lemma azimuths_ok_onload:
  "azimuths_ok (onload e (loaded ctrLat ctrLon a aDir Zn aLat aLon disabled coords snapped))"
proof -
  let ?st = "updateA (clearCoordsDisplay
               (loaded ctrLat ctrLon a aDir Zn aLat aLon disabled coords snapped))"
  have l: "g_lops (updateZn ?st) = []"
    by (simp add: clearCoordsDisplay_def loaded_def)
  have "azimuths_ok (updateAddLOPButton (updateALon (updateALat (updateZn ?st))))"
    using updateZn_azimuth[of ?st]
      updateAddLOPButton_guards[of "updateALon (updateALat (updateZn ?st))"] l
    by (auto simp: azimuths_ok_def)
  then show ?thesis
    unfolding onload_def by (rule azimuths_ok_same) simp_all
qed

lemma reachable_azimuths_ok: "reachable st \<Longrightarrow> azimuths_ok st"
  by (induction rule: reachable.induct) (simp_all add: azimuths_ok_onload azimuths_ok_handle)

text \<open>
  Claim C4, as amended. In every state of a session, the azimuth of every line of position
  is a number of radians in the closed interval from 0 to \<open>2\<pi>\<close>: the bearing field
  accepts the integers 0 to 360, and 360 is stored as \<open>2\<pi>\<close>.
\<close>

theorem azimuth_in_closed_range:
  assumes "reachable st" and "l \<in> set (g_lops st)"
  shows "\<exists>r. lop_Zn l = Fin r \<and> 0 \<le> r \<and> r \<le> 2 * pi"
proof -
  have "list_all (\<lambda>l. azimuth_ok (lop_Zn l)) (g_lops st)"
    using reachable_azimuths_ok[OF assms(1)] by (simp add: azimuths_ok_def)
  then have "azimuth_ok (lop_Zn l)" using assms(2) by (simp add: list_all_iff)
  then show ?thesis by (cases "lop_Zn l") (simp_all add: azimuth_ok_def)
qed


lemma empty_texts:
  "parseIntegerLatitude [] = Some (Fin 0)"
  "parseIntegerLongitude [] = Some (Fin 0)"
  by (simp_all add: parse_defs)

lemma onload_blank_page:
  "g_lops (onload window_1000_600 blank_page) = []"
  "g_draftLOP (onload window_1000_600 blank_page)
     = \<lparr> draft_a = Num (Fin 0), draft_Zn = Num (Fin 0),
         draft_aLat = Num (Fin 0), draft_aLon = Num (Fin 0) \<rparr>"
  "addLOPBtn_disabled (onload window_1000_600 blank_page) = False"
  by (simp_all add: onload_def blank_page_def loaded_def blank_def clearCoordsDisplay_def
      updateA_def updateZn_def updateALat_def updateALon_def updateAddLOPButton_def
      unusable_def trim_def empty_texts)

lemma session_360_lops:
  "g_lops session_360
     = [\<lparr> lop_a = Fin 0, lop_Zn = Fin (2 * pi), lop_aLat = Fin 0, lop_aLon = Fin 0 \<rparr>]"
  by (simp add: session_360_def bearing_360 updateAddLOPButton_def unusable_def
      onload_blank_page addLOP_def to_num_def)

lemma session_360_reachable: "reachable session_360"
  unfolding session_360_def blank_page_def by (intro reachable.step reachable.start)

text \<open>The interval is not half-open: the bearing 360 gives a line of position whose
  azimuth is \<open>2\<pi>\<close> itself.\<close>

theorem azimuth_can_be_two_pi:
  "reachable session_360 \<and> map lop_Zn (g_lops session_360) = [Fin (2 * pi)]
   \<and> \<not> (2 * pi < (2 * pi :: real))"
  using session_360_reachable by (simp add: session_360_lops)

theorem azimuth_in_closed_range_witness:
  "reachable session_360
   \<and> \<lparr> lop_a = Fin 0, lop_Zn = Fin (2 * pi), lop_aLat = Fin 0, lop_aLon = Fin 0 \<rparr>
       \<in> set (g_lops session_360)
   \<and> (\<exists>r. Fin (2 * pi) = Fin r \<and> 0 \<le> r \<and> r \<le> 2 * pi)"
  using azimuth_in_closed_range[OF session_360_reachable,
      of "\<lparr> lop_a = Fin 0, lop_Zn = Fin (2 * pi), lop_aLat = Fin 0, lop_aLon = Fin 0 \<rparr>"]
    session_360_reachable
  by (simp add: session_360_lops)

section \<open>The equation of a line of position\<close>

lemma north_30_spec_120:
  "line_equation 120 north_30 = \<lparr> coeff_m = Fin 0, coeff_b = Fin (- 1 / 2) \<rparr>"
proof -
  have a: "120 * pi / 180 = 2 * pi / 3" by simp
  show ?thesis
    by (simp add: line_equation_def auxiliary_point_def fit_line_def north_30_def
        rhumbPoint_def num_defs Let_def a cos_120 sin_120 cos_120' sin_120')
qed

text \<open>The point of a line of position nearest to the assumed position lies midway between
  the two auxiliary points at 60 and -60 degrees: the line through them is the line of
  position.\<close>

lemma near_endpoint_is_midpoint:
  assumes "cos (lat / 180 * pi) \<noteq> 0"
    and "l = \<lparr> lop_a = Fin a, lop_Zn = Fin z, lop_aLat = Fin lat, lop_aLon = Fin lon \<rparr>"
  shows "nadd (geo_lat (auxiliary_point 60 l)) (geo_lat (auxiliary_point (- 60) l))
           = nmul (Fin 2) (geo_lat (rhumbPoint (Fin lat) (Fin lon) (Fin z) (Fin a)))"
    and "nadd (geo_lon (auxiliary_point 60 l)) (geo_lon (auxiliary_point (- 60) l))
           = nmul (Fin 2) (geo_lon (rhumbPoint (Fin lat) (Fin lon) (Fin z) (Fin a)))"
proof -
  have c: "cos (z + pi / 3) + cos (z - pi / 3) = cos z"
    by (simp add: cos_add cos_diff cos_60)
  have s: "sin (z + pi / 3) + sin (z - pi / 3) = sin z"
    by (simp add: sin_add sin_diff cos_60)
  have "cos (z + pi / 3) * (2 * a) / 60 + cos (z - pi / 3) * (2 * a) / 60
          = (cos (z + pi / 3) + cos (z - pi / 3)) * (2 * a) / 60"
    by (simp add: algebra_simps add_divide_distrib)
  then have c': "cos (z + pi / 3) * (2 * a) / 60 + cos (z - pi / 3) * (2 * a) / 60
          = 2 * (cos z * a / 60)"
    unfolding c by simp
  have "sin (z + pi / 3) * (2 * a / cos (lat / 180 * pi)) / 60
          + sin (z - pi / 3) * (2 * a / cos (lat / 180 * pi)) / 60
          = (sin (z + pi / 3) + sin (z - pi / 3)) * (2 * a / cos (lat / 180 * pi)) / 60"
    by (simp add: algebra_simps add_divide_distrib)
  then have s': "sin (z + pi / 3) * (2 * a / cos (lat / 180 * pi)) / 60
          + sin (z - pi / 3) * (2 * a / cos (lat / 180 * pi)) / 60
          = 2 * (sin z * (a / cos (lat / 180 * pi)) / 60)"
    unfolding s by simp
  show "nadd (geo_lat (auxiliary_point 60 l)) (geo_lat (auxiliary_point (- 60) l))
           = nmul (Fin 2) (geo_lat (rhumbPoint (Fin lat) (Fin lon) (Fin z) (Fin a)))"
    unfolding assms(2) auxiliary_point_Fin[OF assms(1)] rhumbPoint_Fin[OF assms(1)]
    using c' by (simp add: nadd_def nmul_def)
  show "nadd (geo_lon (auxiliary_point 60 l)) (geo_lon (auxiliary_point (- 60) l))
           = nmul (Fin 2) (geo_lon (rhumbPoint (Fin lat) (Fin lon) (Fin z) (Fin a)))"
    unfolding assms(2) auxiliary_point_Fin[OF assms(1)] rhumbPoint_Fin[OF assms(1)]
    using s' by (simp add: nadd_def nmul_def)
qed

text \<open>Where the coefficients are finite and the slopes differ, the solved point lies on
  the second line as well as on the first.\<close>

lemma intercept_on_both_lines:
  assumes "mi \<noteq> mj"
  shows "latIntercept \<lparr> coeff_m = Fin mi, coeff_b = Fin bi \<rparr> \<lparr> coeff_m = Fin mj, coeff_b = Fin bj \<rparr>
           = Fin (mi * ((bj - bi) / (mi - mj)) + bi)"
    and "mi * ((bj - bi) / (mi - mj)) + bi = mj * ((bj - bi) / (mi - mj)) + bj"
proof -
  show "latIntercept \<lparr> coeff_m = Fin mi, coeff_b = Fin bi \<rparr> \<lparr> coeff_m = Fin mj, coeff_b = Fin bj \<rparr>
           = Fin (mi * ((bj - bi) / (mi - mj)) + bi)"
    using assms by (simp add: latIntercept_def lonIntercept_def num_defs)
  have "mi - mj \<noteq> 0" using assms by simp
  then show "mi * ((bj - bi) / (mi - mj)) + bi = mj * ((bj - bi) / (mi - mj)) + bj"
    by (simp add: field_simps)
qed

text \<open>
  Claim C1, as amended. The linear equation of a line of position is the line fitted
  through two auxiliary points, projected by \<open>rhumbPoint\<close> at twice the distance of the
  fix along the azimuth plus 60 degrees and the azimuth minus 60 degrees (\<open>2\<pi>/6\<close>
  radians). A redraw then goes through every pair of indices \<open>i < j\<close> once, in order, and
  for each pair it keeps it solves the longitude \<open>(b\<^sub>j - b\<^sub>i) / (m\<^sub>i - m\<^sub>j)\<close> and the latitude
  \<open>m\<^sub>i\<close> times that longitude plus \<open>b\<^sub>i\<close>.
\<close>

theorem line_equations_and_pairs:
  "lop_coeffs l = line_equation 60 l
   \<and> g_intersections (redraw e st)
       = List.map_filter
           (\<lambda>(i, j). pair_intersection (setCanvasDimensions e st)
                       (lop_coeffs (g_lops st ! i)) (lop_coeffs (g_lops st ! j)))
           (index_pairs (length (g_lops st)))
   \<and> (pair_intersection st' ci cj = Some p \<longrightarrow>
        ilon p = lonIntercept ci cj \<and> ilat p = latIntercept ci cj)"
  using lop_coeffs_is_line_equation_60 redraw_intersections pair_intersection_formula
  by blast

theorem line_equations_and_pairs_witness:
  "lop_coeffs east_north_east_30 = line_equation 60 east_north_east_30
   \<and> line_equation 60 east_north_east_30 = \<lparr> coeff_m = Fin (- sqrt 3), coeff_b = Fin 1 \<rparr>
   \<and> g_intersections (redraw window_1000_600 crossing_sheet)
       = [\<lparr> ix = Fin (50 / sqrt 3), iy = Fin (- 50), ilat = Fin (1 / 2),
            ilon = Fin (1 / (2 * sqrt 3)) \<rparr>]
   \<and> pair_intersection (setCanvasDimensions window_1000_600 crossing_sheet)
        (lop_coeffs north_30) (lop_coeffs east_north_east_30)
       = Some \<lparr> ix = Fin (50 / sqrt 3), iy = Fin (- 50), ilat = Fin (1 / 2),
                ilon = Fin (1 / (2 * sqrt 3)) \<rparr>
   \<and> lonIntercept (lop_coeffs north_30) (lop_coeffs east_north_east_30) = Fin (1 / (2 * sqrt 3))
   \<and> latIntercept (lop_coeffs north_30) (lop_coeffs east_north_east_30) = Fin (1 / 2)"
proof -
  let ?p = "\<lparr> ix = Fin (50 / sqrt 3), iy = Fin (- 50), ilat = Fin (1 / 2),
              ilon = Fin (1 / (2 * sqrt 3)) \<rparr>"
  have pr: "pair_intersection (setCanvasDimensions window_1000_600 crossing_sheet)
        (lop_coeffs north_30) (lop_coeffs east_north_east_30) = Some ?p"
    by (simp add: north_30_coeffs east_north_east_30_coeffs crossing_pair)
  note t = line_equations_and_pairs[of east_north_east_30 window_1000_600 crossing_sheet
      "setCanvasDimensions window_1000_600 crossing_sheet" "lop_coeffs north_30"
      "lop_coeffs east_north_east_30" ?p]
  from t pr have f: "ilon ?p = lonIntercept (lop_coeffs north_30) (lop_coeffs east_north_east_30)"
      "ilat ?p = latIntercept (lop_coeffs north_30) (lop_coeffs east_north_east_30)"
    by blast+
  from t have e: "lop_coeffs east_north_east_30 = line_equation 60 east_north_east_30"
    by blast
  show ?thesis
    using e f pr crossing_sheet_intersections east_north_east_30_coeffs by simp
qed

text \<open>The offsets are not 120 degrees: for a line of position 30 miles due north of the
  point 0, 0 the program finds the parallel of latitude 0.5 degrees north, and the line
  through the points at 120 and -120 degrees is the parallel 0.5 degrees south.\<close>

theorem offsets_are_not_120:
  "lop_coeffs north_30 = \<lparr> coeff_m = Fin 0, coeff_b = Fin (1 / 2) \<rparr>
   \<and> line_equation 120 north_30 = \<lparr> coeff_m = Fin 0, coeff_b = Fin (- 1 / 2) \<rparr>"
  using north_30_coeffs north_30_spec_120 by simp

section \<open>Pairs of lines with equal slopes\<close>
















section \<open>Formatting and parsing again\<close>

lemma rounded_degrees_nat [simp]:
  "rounded_degrees (real n) = n" "rounded_degrees (- real n) = n"
proof -
  have "\<lfloor>real n + 1 / 2\<rfloor> = int n" by linarith
  then show "rounded_degrees (real n) = n" "rounded_degrees (- real n) = n"
    by (simp_all add: rounded_degrees_def)
qed

lemma integer_latitude_text:
  assumes "n \<le> 89"
  shows "formatIntegerLatitude (Fin (real n))
           = [48 + n div 10, 48 + n mod 10, 176] @ (if n = 0 then [] else [32, 78])"
    and "formatIntegerLatitude (Fin (- real n))
           = [48 + n div 10, 48 + n mod 10, 176] @ (if n = 0 then [] else [32, 83])"
proof -
  have b: "\<bar>real n\<bar> < 199 / 2" "\<bar>- real n\<bar> < 199 / 2" using assms by simp_all
  show "formatIntegerLatitude (Fin (real n))
           = [48 + n div 10, 48 + n mod 10, 176] @ (if n = 0 then [] else [32, 78])"
    unfolding formatIntegerLatitude_def str_def
    using formatDegreesDirection_2[OF b(1), of 78 83]
    by (simp add: two_digits_def direction_letter_def degree_sign_def space_def)
  show "formatIntegerLatitude (Fin (- real n))
           = [48 + n div 10, 48 + n mod 10, 176] @ (if n = 0 then [] else [32, 83])"
    unfolding formatIntegerLatitude_def str_def
    using formatDegreesDirection_2[OF b(2), of 78 83]
    by (simp add: two_digits_def direction_letter_def degree_sign_def space_def)
qed

lemma integer_latitude_roundtrip:
  assumes "n \<le> 89"
  shows "parseIntegerLatitude (formatIntegerLatitude (Fin (real n))) = Some (Fin (real n))"
    and "parseIntegerLatitude (formatIntegerLatitude (Fin (- real n))) = Some (Fin (- real n))"
proof -
  have d: "n div 10 < 10" "n mod 10 < 10" using assms by simp_all
  have v: "real (10 * (n div 10) + n mod 10) = real n" by (simp only: digits_2)
  have le: "\<not> 89 < real n" using assms by simp
  show "parseIntegerLatitude (formatIntegerLatitude (Fin (real n))) = Some (Fin (real n))"
    unfolding integer_latitude_text(1)[OF assms]
    using parseIntegerLatitude_canonical(1,2)[OF d] le unfolding v
    by (cases "n = 0") simp_all
  show "parseIntegerLatitude (formatIntegerLatitude (Fin (- real n))) = Some (Fin (- real n))"
    unfolding integer_latitude_text(2)[OF assms]
    using parseIntegerLatitude_canonical(1,3)[OF d] le unfolding v
    by (cases "n = 0") simp_all
qed

lemma integer_longitude_text:
  assumes "n \<le> 180"
  shows "formatIntegerLongitude (Fin (real n))
           = [48 + n div 100, 48 + n div 10 mod 10, 48 + n mod 10, 176]
             @ (if n = 0 then [] else [32, 69])"
    and "formatIntegerLongitude (Fin (- real n))
           = [48 + n div 100, 48 + n div 10 mod 10, 48 + n mod 10, 176]
             @ (if n = 0 then [] else [32, 87])"
proof -
  have b: "\<bar>real n\<bar> < 1999 / 2" "\<bar>- real n\<bar> < 1999 / 2" using assms by simp_all
  show "formatIntegerLongitude (Fin (real n))
           = [48 + n div 100, 48 + n div 10 mod 10, 48 + n mod 10, 176]
             @ (if n = 0 then [] else [32, 69])"
    unfolding formatIntegerLongitude_def str_def
    using formatDegreesDirection_3[OF b(1), of 69 87]
    by (simp add: three_digits_def direction_letter_def degree_sign_def space_def)
  show "formatIntegerLongitude (Fin (- real n))
           = [48 + n div 100, 48 + n div 10 mod 10, 48 + n mod 10, 176]
             @ (if n = 0 then [] else [32, 87])"
    unfolding formatIntegerLongitude_def str_def
    using formatDegreesDirection_3[OF b(2), of 69 87]
    by (simp add: three_digits_def direction_letter_def degree_sign_def space_def)
qed

lemma integer_longitude_roundtrip:
  assumes "n \<le> 180"
  shows "parseIntegerLongitude (formatIntegerLongitude (Fin (real n))) = Some (Fin (real n))"
    and "parseIntegerLongitude (formatIntegerLongitude (Fin (- real n))) = Some (Fin (- real n))"
proof -
  have d: "n div 100 < 10" "n div 10 mod 10 < 10" "n mod 10 < 10" using assms by simp_all
  have v: "real (100 * (n div 100) + 10 * (n div 10 mod 10) + n mod 10) = real n"
    by (simp only: digits_3)
  have le: "\<not> 180 < real n" using assms by simp
  show "parseIntegerLongitude (formatIntegerLongitude (Fin (real n))) = Some (Fin (real n))"
    unfolding integer_longitude_text(1)[OF assms]
    using parseIntegerLongitude_canonical(1,2)[OF d] le unfolding v
    by (cases "n = 0") simp_all
  show "parseIntegerLongitude (formatIntegerLongitude (Fin (- real n))) = Some (Fin (- real n))"
    unfolding integer_longitude_text(2)[OF assms]
    using parseIntegerLongitude_canonical(1,3)[OF d] le unfolding v
    by (cases "n = 0") simp_all
qed


lemma grid_degrees:
  "whole_degrees (real k / 600) = k div 600" "whole_degrees (- (real k / 600)) = k div 600"
proof -
  have "\<lfloor>real k / real 600\<rfloor> = int (k div 600)"
    by (rule floor_divide_of_nat_eq)
  then show "whole_degrees (real k / 600) = k div 600"
    "whole_degrees (- (real k / 600)) = k div 600"
    by (simp_all add: whole_degrees_def)
qed

lemma grid_tenths:
  "tenths_of_minutes (real k / 600) = k mod 600"
  "tenths_of_minutes (- (real k / 600)) = k mod 600"
proof -
  have f: "\<lfloor>real k / real 600\<rfloor> = int (k div 600)"
    by (rule floor_divide_of_nat_eq)
  have "real k = real (600 * (k div 600) + k mod 600)" by simp
  then have "real k = 600 * real (k div 600) + real (k mod 600)"
    by (simp only: of_nat_add of_nat_mult of_nat_numeral)
  then have "(real k / 600 - real (k div 600)) * 60 * 10 + 1 / 2 = real (k mod 600) + 1 / 2"
    by (simp add: field_simps)
  moreover have "\<lfloor>real (k mod 600) + 1 / 2\<rfloor> = int (k mod 600)" by linarith
  ultimately have "nat \<lfloor>(real k / 600 - real (k div 600)) * 60 * 10 + 1 / 2\<rfloor> = k mod 600"
    by simp
  then show "tenths_of_minutes (real k / 600) = k mod 600"
    "tenths_of_minutes (- (real k / 600)) = k mod 600"
    using f by (simp_all add: tenths_of_minutes_def)
qed

lemma longitude_text:
  assumes "k \<le> 108000"
  shows "formatLongitude (Fin (real k / 600))
           = [48 + k div 600 div 100, 48 + k div 600 div 10 mod 10, 48 + k div 600 mod 10, 176, 32,
              48 + k mod 600 div 10 div 10, 48 + k mod 600 div 10 mod 10, 46,
              48 + k mod 600 mod 10, 8217]
             @ (if k = 0 then [] else [32, 69])"
    and "formatLongitude (Fin (- (real k / 600)))
           = [48 + k div 600 div 100, 48 + k div 600 div 10 mod 10, 48 + k div 600 mod 10, 176, 32,
              48 + k mod 600 div 10 div 10, 48 + k mod 600 div 10 mod 10, 46,
              48 + k mod 600 mod 10, 8217]
             @ (if k = 0 then [] else [32, 87])"
proof -
  have b: "\<bar>real k / 600\<bar> < 1000" "\<bar>- (real k / 600)\<bar> < 1000" using assms by simp_all
  show "formatLongitude (Fin (real k / 600))
           = [48 + k div 600 div 100, 48 + k div 600 div 10 mod 10, 48 + k div 600 mod 10, 176, 32,
              48 + k mod 600 div 10 div 10, 48 + k mod 600 div 10 mod 10, 46,
              48 + k mod 600 mod 10, 8217]
             @ (if k = 0 then [] else [32, 69])"
    unfolding formatLongitude_def str_def
    using formatDegreesMinutesDirection_3[OF b(1), of 69 87]
    by (simp add: three_digits_def two_digits_def direction_letter_def degree_sign_def space_def
        right_quote_def grid_degrees grid_tenths)
  show "formatLongitude (Fin (- (real k / 600)))
           = [48 + k div 600 div 100, 48 + k div 600 div 10 mod 10, 48 + k div 600 mod 10, 176, 32,
              48 + k mod 600 div 10 div 10, 48 + k mod 600 div 10 mod 10, 46,
              48 + k mod 600 mod 10, 8217]
             @ (if k = 0 then [] else [32, 87])"
    unfolding formatLongitude_def str_def
    using formatDegreesMinutesDirection_3[OF b(2), of 69 87]
    by (simp add: three_digits_def two_digits_def direction_letter_def degree_sign_def space_def
        right_quote_def grid_degrees grid_tenths)
qed

lemma longitude_roundtrip:
  assumes "k \<le> 108000"
  shows "parseLongitude (formatLongitude (Fin (real k / 600))) = Some (Fin (real k / 600))"
    and "parseLongitude (formatLongitude (Fin (- (real k / 600))))
           = Some (Fin (- (real k / 600)))"
proof -
  let ?D = "k div 600" and ?M = "k mod 600 div 10" and ?t = "k mod 600 mod 10"
  have d: "?D div 100 < 10" "?D div 10 mod 10 < 10" "?D mod 10 < 10"
    using assms by simp_all
  have m: "?M div 10 < 10" "?M mod 10 < 10" "?t < 10"
    by simp_all
  have vD: "real (100 * (?D div 100) + 10 * (?D div 10 mod 10) + ?D mod 10) = real ?D"
    by (simp only: digits_3)
  have vM: "real (10 * (?M div 10) + ?M mod 10) = real ?M"
    by (simp only: digits_2)
  have "k mod 600 = 10 * ?M + ?t" by simp
  then have "real (k mod 600) = real (10 * ?M + ?t)" by (rule arg_cong)
  then have "real (k mod 600) = 10 * real ?M + real ?t"
    by (simp only: of_nat_add of_nat_mult of_nat_numeral)
  then have t: "real ?M + real ?t / 10 = real (k mod 600) / 10"
    by (simp only: add_divide_distrib)
  have "real k = real (600 * ?D + k mod 600)" by simp
  then have "real k = 600 * real ?D + real (k mod 600)"
    by (simp only: of_nat_add of_nat_mult of_nat_numeral)
  then have v: "real ?D + (real ?M + real ?t / 10) / 60 = real k / 600"
    unfolding t by (simp add: field_simps)
  have le: "\<not> 180 < real k / 600" using assms by simp
  show "parseLongitude (formatLongitude (Fin (real k / 600))) = Some (Fin (real k / 600))"
    unfolding longitude_text(1)[OF assms]
    using parseLongitude_canonical_0[OF d m] parseLongitude_canonical_E[OF d m] le
    unfolding vD vM v
    by (cases "k = 0") simp_all
  show "parseLongitude (formatLongitude (Fin (- (real k / 600))))
          = Some (Fin (- (real k / 600)))"
    unfolding longitude_text(2)[OF assms]
    using parseLongitude_canonical_0[OF d m] parseLongitude_canonical_W[OF d m] le
    unfolding vD vM v
    by (cases "k = 0") simp_all
qed


subsection \<open>Bearing and distance\<close>

lemma bearing_canonical:
  assumes "d2 < 10" "d1 < 10" "d0 < 10"
  shows "trim [48 + d2, 48 + d1, 48 + d0, 176] = [48 + d2, 48 + d1, 48 + d0, 176]"
    and "map_option (\<lambda>m. Number_of_group (m 1))
           (js_match ZnRegex [48 + d2, 48 + d1, 48 + d0, 176])
         = Some (Fin (real (100 * d2 + 10 * d1 + d0)))"
  using assms
  by (simp_all add: trim_def is_ws_def rx_defs ch_defs Number_of_group_def Number_def
      digits_val_def)

lemma bearing_roundtrip:
  assumes "n \<le> 360"
  shows "updateZn (st\<lparr>el_Zn := set_value (three_digits n @ [degree_sign]) (el_Zn st)\<rparr>)
           = st\<lparr> el_Zn := set_value (three_digits n @ [degree_sign]) (el_Zn st),
                  g_draftLOP := (g_draftLOP st)\<lparr>draft_Zn := Num (radians (Fin (real n)))\<rparr> \<rparr>"
proof -
  let ?text = "[48 + n div 100, 48 + n div 10 mod 10, 48 + n mod 10, 176]"
  have d: "n div 100 < 10" "n div 10 mod 10 < 10" "n mod 10 < 10" using assms by simp_all
  have v: "real (100 * (n div 100) + 10 * (n div 10 mod 10) + n mod 10) = real n"
    by (simp only: digits_3)
  from bearing_canonical(2)[OF d] obtain m where
    m: "js_match ZnRegex ?text = Some m" "Number_of_group (m (Suc 0)) = Fin (real n)"
    unfolding v by (cases "js_match ZnRegex ?text") auto
  have "\<lfloor>\<bar>real n\<bar> + 1 / 2\<rfloor> = int n" by linarith
  then have r: "nat \<lfloor>\<bar>real n\<bar> + 1 / 2\<rfloor> = n" by simp
  have "nat \<lfloor>\<bar>real n\<bar> + 1 / 2\<rfloor> < 1000" unfolding r using assms by simp
  from toLocaleString_int3[OF this] have f: "toLocaleString (Fin (real n)) 3 0 0 = three_digits n"
    unfolding r by (simp add: three_digits_def)
  have t: "three_digits n @ [degree_sign] = ?text"
    by (simp add: three_digits_def degree_sign_def)
  have g: "\<not> ngt (Fin (real n)) (Fin 360)" using assms by (simp add: ngt_def nlt_def)
  show ?thesis
    unfolding t
    by (simp add: updateZn_def set_value_def bearing_canonical(1)[OF d] m g f[unfolded three_digits_def]
        Let_def degree_sign_def)
qed

lemma decimal_short:
  assumes "n < 1000"
  shows "length (decimal n) \<le> 3" and "decimal n \<noteq> []"
proof -
  consider "n < 10" | "10 \<le> n" "n < 100" | "100 \<le> n" by linarith
  then have "length (decimal n) \<le> 3 \<and> decimal n \<noteq> []"
  proof cases
    case 1
    then show ?thesis by (simp add: decimal_1)
  next
    case 2
    then show ?thesis by (simp add: decimal_2)
  next
    case 3
    with assms show ?thesis by (simp add: decimal_3)
  qed
  then show "length (decimal n) \<le> 3" and "decimal n \<noteq> []" by simp_all
qed

lemma distance_text:
  assumes "k < 10000"
  shows "toLocaleString (Fin (real k / 10)) 1 1 1 = decimal (k div 10) @ [46, 48 + k mod 10]"
proof -
  have "\<lfloor>real k + 1 / 2\<rfloor> = int k" by linarith
  then have s: "nat \<lfloor>\<bar>real k / 10\<bar> * 10 + 1 / 2\<rfloor> = k" by simp
  have q: "k div 10 < 1000" using assms by simp
  have p: "zero_pad (Suc 0) (decimal (k div 10)) = decimal (k div 10)"
    using decimal_short(2)[OF q] by (cases "decimal (k div 10)") (simp_all add: zero_pad_def)
  show ?thesis
    unfolding toLocaleString_def
    by (simp add: s Let_def p group3_short[OF decimal_short(1)[OF q]] zero_pad_1
        strip_zeros_min)
qed

lemma distance_canonical:
  assumes "a < 10" "b < 10" "c < 10" "t < 10"
  shows "trim [48 + a, 46, 48 + t, 8217] = [48 + a, 46, 48 + t, 8217]"
    and "trim [48 + a, 48 + b, 46, 48 + t, 8217] = [48 + a, 48 + b, 46, 48 + t, 8217]"
    and "trim [48 + a, 48 + b, 48 + c, 46, 48 + t, 8217]
           = [48 + a, 48 + b, 48 + c, 46, 48 + t, 8217]"
    and "map_option (\<lambda>m. Number_of_group (m 1)) (js_match aRegex [48 + a, 46, 48 + t, 8217])
           = Some (Fin (real a + real t / 10))"
    and "map_option (\<lambda>m. Number_of_group (m 1))
           (js_match aRegex [48 + a, 48 + b, 46, 48 + t, 8217])
           = Some (Fin (real (10 * a + b) + real t / 10))"
    and "map_option (\<lambda>m. Number_of_group (m 1))
           (js_match aRegex [48 + a, 48 + b, 48 + c, 46, 48 + t, 8217])
           = Some (Fin (real (100 * a + 10 * b + c) + real t / 10))"
  using assms
  by (simp_all add: trim_def is_ws_def rx_defs ch_defs Number_of_group_def Number_def
      digits_val_def)

lemma distance_parsed:
  assumes "k < 10000"
  shows "trim (decimal (k div 10) @ [46, 48 + k mod 10, 8217])
           = decimal (k div 10) @ [46, 48 + k mod 10, 8217]"
    and "map_option (\<lambda>m. Number_of_group (m 1))
           (js_match aRegex (decimal (k div 10) @ [46, 48 + k mod 10, 8217]))
           = Some (Fin (real k / 10))"
proof -
  let ?n = "k div 10" and ?t = "k mod 10"
  have t: "?t < 10" by simp
  have "real k = real (10 * ?n + ?t)" by simp
  then have "real k = 10 * real ?n + real ?t"
    by (simp only: of_nat_add of_nat_mult of_nat_numeral)
  then have v: "real ?n + real ?t / 10 = real k / 10" by (simp add: field_simps)
  consider (one) "?n < 10" | (two) "10 \<le> ?n" "?n < 100" | (three) "100 \<le> ?n" "?n < 1000"
    using assms by linarith
  then have "trim (decimal ?n @ [46, 48 + ?t, 8217]) = decimal ?n @ [46, 48 + ?t, 8217]
    \<and> map_option (\<lambda>m. Number_of_group (m 1))
           (js_match aRegex (decimal ?n @ [46, 48 + ?t, 8217]))
         = Some (Fin (real ?n + real ?t / 10))"
  proof cases
    case one
    show ?thesis
      unfolding decimal_1[OF one]
      using distance_canonical(1,4)[OF one one one t] by simp
  next
    case two
    have d: "?n div 10 < 10" "?n mod 10 < 10" using two by simp_all
    have e: "real (10 * (?n div 10) + ?n mod 10) = real ?n" by (simp only: digits_2)
    show ?thesis
      unfolding decimal_2[OF two]
      using distance_canonical(2,5)[OF d d(1) t] unfolding e by simp
  next
    case three
    have d: "?n div 100 < 10" "?n div 10 mod 10 < 10" "?n mod 10 < 10" using three by simp_all
    have e: "real (100 * (?n div 100) + 10 * (?n div 10 mod 10) + ?n mod 10) = real ?n"
      by (simp only: digits_3)
    show ?thesis
      unfolding decimal_3[OF three]
      using distance_canonical(3,6)[OF d t] unfolding e by simp
  qed
  then show "trim (decimal ?n @ [46, 48 + ?t, 8217]) = decimal ?n @ [46, 48 + ?t, 8217]"
    and "map_option (\<lambda>m. Number_of_group (m 1))
           (js_match aRegex (decimal ?n @ [46, 48 + ?t, 8217]))
           = Some (Fin (real k / 10))"
    unfolding v by simp_all
qed

lemma distance_roundtrip:
  assumes "k < 10000"
  shows "updateA (st\<lparr>el_a := set_value (toLocaleString (Fin (real k / 10)) 1 1 1 @ [right_quote])
                                (el_a st)\<rparr>)
           = st\<lparr> el_a := set_value (toLocaleString (Fin (real k / 10)) 1 1 1 @ [right_quote])
                                (el_a st),
                  g_draftLOP := (g_draftLOP st)
                    \<lparr>draft_a := Num (if el_aDir st = str ''T'' then Fin (real k / 10)
                                     else nneg (Fin (real k / 10)))\<rparr> \<rparr>"
proof -
  let ?text = "decimal (k div 10) @ [46, 48 + k mod 10, 8217]"
  have x: "toLocaleString (Fin (real k / 10)) 1 1 1 @ [right_quote] = ?text"
    by (simp add: distance_text[OF assms, unfolded One_nat_def] right_quote_def)
  from distance_parsed(2)[OF assms] obtain m where
    m: "js_match aRegex ?text = Some m" "Number_of_group (m (Suc 0)) = Fin (real k / 10)"
    by (cases "js_match aRegex ?text") auto
  have "updateA (st\<lparr>el_a := set_value ?text (el_a st)\<rparr>)
           = st\<lparr> el_a := set_value ?text (el_a st),
                  g_draftLOP := (g_draftLOP st)
                    \<lparr>draft_a := Num (if el_aDir st = str ''T'' then Fin (real k / 10)
                                     else nneg (Fin (real k / 10)))\<rparr> \<rparr>"
    by (simp add: updateA_def set_value_def distance_parsed(1)[OF assms] m Let_def
        x[unfolded One_nat_def])
  then show ?thesis
    unfolding x .
qed


text \<open>
  For the three grammars of latitudes and longitudes and for the bearing, and for a distance
  below 1000 miles, the text a formatter writes parses back to the value it was written
  from, so formatting the parsed value gives the same text again.
\<close>

lemma format_parse_format:
  "n \<le> 89 \<Longrightarrow>
     map_option formatIntegerLatitude (parseIntegerLatitude (formatIntegerLatitude (Fin (real n))))
       = Some (formatIntegerLatitude (Fin (real n)))"
  "n \<le> 89 \<Longrightarrow>
     map_option formatIntegerLatitude (parseIntegerLatitude (formatIntegerLatitude (Fin (- real n))))
       = Some (formatIntegerLatitude (Fin (- real n)))"
  "n \<le> 180 \<Longrightarrow>
     map_option formatIntegerLongitude
       (parseIntegerLongitude (formatIntegerLongitude (Fin (real n))))
       = Some (formatIntegerLongitude (Fin (real n)))"
  "n \<le> 180 \<Longrightarrow>
     map_option formatIntegerLongitude
       (parseIntegerLongitude (formatIntegerLongitude (Fin (- real n))))
       = Some (formatIntegerLongitude (Fin (- real n)))"
  "k \<le> 108000 \<Longrightarrow>
     map_option formatLongitude (parseLongitude (formatLongitude (Fin (real k / 600))))
       = Some (formatLongitude (Fin (real k / 600)))"
  "k \<le> 108000 \<Longrightarrow>
     map_option formatLongitude (parseLongitude (formatLongitude (Fin (- (real k / 600)))))
       = Some (formatLongitude (Fin (- (real k / 600))))"
  by (simp_all add: integer_latitude_roundtrip integer_longitude_roundtrip longitude_roundtrip)

subsection \<open>A distance of 1000 miles\<close>

lemma distance_1000_text: "toLocaleString (Fin 1000) 1 1 1 = str ''1,000.0''"
  by (simp add: toLocaleString_def zero_pad_def decimal.simps group3.simps strip_zeros.simps
      ch_defs)

lemma distance_1000_accepted:
  "updateA (st\<lparr>el_a := set_value (str ''1000'') (el_a st)\<rparr>)
     = st\<lparr> el_a := set_value (str ''1,000.0'' @ [right_quote]) (el_a st),
            g_draftLOP := (g_draftLOP st)
              \<lparr>draft_a := Num (if el_aDir st = str ''T'' then Fin 1000 else Fin (- 1000))\<rparr> \<rparr>"
  by (simp add: updateA_def set_value_def toLocaleString_def zero_pad_def decimal.simps
      group3.simps strip_zeros.simps parse_defs rx_defs ch_defs num_defs)

lemma distance_1000_rejected:
  "a_fails (str ''1,000.0'' @ [right_quote])"
  by (simp add: a_fails_def trim_def is_ws_def rx_defs ch_defs)

text \<open>
  Claim C5 fails on the code for the distance. The number formatter groups the integer
  digits of 1000 and above in threes, and the pattern of the distance field has no comma:
  the text written back into the field for the distance 1000 is not accepted when the field
  is parsed again, as it is when the user changes the direction from Toward to Away. The
  draft entry then becomes \<open>undefined\<close> and the field is flagged.
\<close>

theorem distance_text_not_reparsed:
  "handle e (Change_a (str ''1000'')) st
     = updateAddLOPButton
         (st\<lparr> el_a := set_value (str ''1,000.0'' @ [right_quote]) (el_a st),
              g_draftLOP := (g_draftLOP st)
                \<lparr>draft_a := Num (if el_aDir st = str ''T'' then Fin 1000 else Fin (- 1000))\<rparr> \<rparr>)
   \<and> input_value (el_a (handle e (Change_a (str ''1000'')) st)) = str ''1,000.0'' @ [right_quote]
   \<and> draft_a (g_draftLOP (handle e (Change_aDir (str ''A''))
                            (handle e (Change_a (str ''1000'')) st))) = Undefined
   \<and> input_error (el_a (handle e (Change_aDir (str ''A''))
                          (handle e (Change_a (str ''1000'')) st)))"
proof -
  let ?s1 = "handle e (Change_a (str ''1000'')) st"
  have h1: "?s1 = updateAddLOPButton
         (st\<lparr> el_a := set_value (str ''1,000.0'' @ [right_quote]) (el_a st),
              g_draftLOP := (g_draftLOP st)
                \<lparr>draft_a := Num (if el_aDir st = str ''T'' then Fin 1000 else Fin (- 1000))\<rparr> \<rparr>)"
    by (simp only: handle.simps distance_1000_accepted)
  have v: "input_value (el_a ?s1) = str ''1,000.0'' @ [right_quote]"
    unfolding h1 by (simp add: updateAddLOPButton_def set_value_def)
  have f: "a_fails (input_value (el_a (?s1\<lparr>el_aDir := str ''A''\<rparr>)))"
    using distance_1000_rejected v by simp
  have h2: "handle e (Change_aDir (str ''A'')) ?s1
      = updateAddLOPButton (updateA (?s1\<lparr>el_aDir := str ''A''\<rparr>))"
    by (simp only: handle.simps)
  have "draft_a (g_draftLOP (handle e (Change_aDir (str ''A'')) ?s1)) = Undefined"
    "input_error (el_a (handle e (Change_aDir (str ''A'')) ?s1))"
    unfolding h2 updateA_failure[OF f]
    by (simp_all add: updateAddLOPButton_def flagInputError_def)
  with h1 v show ?thesis by blast
qed

end
